theory Spec2Isabelle
  imports Complex_Main "HOL-Library.Word" "HOL-Library.Log_Nat"
begin

section \<open>The generative-table router: data model\<close>

text \<open>
  A shallow embedding of \<^verbatim>\<open>services/api/src/owl/routers/gen_table.py\<close>.
  Every handler is a function from its arguments and an environment of collaborators
  (storage engine, LLM client, embedder, file loader) to the list of effects it performs,
  in program order, and its result: \<open>Inl\<close> an exception, \<open>Inr\<close> a value.
\<close>

text \<open>
  Exceptions: the values of Python's \<^verbatim>\<open>Exception\<close> class that the file raises or
  tests for. \<^verbatim>\<open>TableSchemaFixedError\<close> is an \<^verbatim>\<open>OwlException\<close>
  (both come from \<^verbatim>\<open>owl.utils.exceptions\<close>); \<^verbatim>\<open>Timeout\<close> is
  \<^verbatim>\<open>filelock.Timeout\<close>, \<^verbatim>\<open>AxisError\<close> is numpy's.
\<close>

datatype error =
    OwlException string
  | TableSchemaFixedError string
  | RuntimeError string
  | IndexError string
  | ValueError string
  | TypeError string
  | AxisError string
  | Timeout
  | OtherException string

fun is_OwlException :: "error \<Rightarrow> bool" where
  "is_OwlException (OwlException _) = True"
| "is_OwlException (TableSchemaFixedError _) = True"
| "is_OwlException _ = False"

type_synonym bytes = "8 word list"

section \<open>Checksum of an uploaded file\<close>

text \<open>
  \<^verbatim>\<open>hashlib.blake2b\<close> is an external library; the handler uses three operations of
  it: the constructor, \<^verbatim>\<open>update\<close> and \<^verbatim>\<open>hexdigest\<close>. They are taken as
  parameters.
\<close>

record 'h hasher_api =
  new_hasher :: 'h
  hasher_update :: "'h \<Rightarrow> bytes \<Rightarrow> 'h"
  hexdigest :: "'h \<Rightarrow> string"

text \<open>
  The contract of a hashlib object, as its documentation states it: repeated calls of
  \<^verbatim>\<open>update\<close> are equivalent to one call with the concatenation of the arguments
  (and so feeding no bytes changes nothing).
\<close>

definition streaming_hasher :: "'h hasher_api \<Rightarrow> bool" where
  "streaming_hasher H \<longleftrightarrow>
     (\<forall>h. hasher_update H h [] = h) \<and>
     (\<forall>h a b. hasher_update H (hasher_update H h a) b = hasher_update H h (a @ b))"

text \<open>
  \<^verbatim>\<open>for i in range(0, len(content), block_size): hasher.update(content[i : i + block_size])\<close>,
  from index \<open>i\<close> on. The slice of Python is \<open>take block_size (drop i content)\<close>.
\<close>

function feed_blocks :: "'h hasher_api \<Rightarrow> nat \<Rightarrow> bytes \<Rightarrow> nat \<Rightarrow> 'h \<Rightarrow> 'h" where
  "feed_blocks H block_size content i hasher =
     (if block_size = 0 \<or> length content \<le> i then hasher
      else feed_blocks H block_size content (i + block_size)
             (hasher_update H hasher (take block_size (drop i content))))"
  by pat_completeness auto
termination
  by (relation "measure (\<lambda>(H, block_size, content, i, hasher). length content - i)") auto

declare feed_blocks.simps [simp del]

text \<open>
  The checksum computation of \<^verbatim>\<open>upload_file\<close> for a given block size;
  \<^verbatim>\<open>range\<close> with step 0 raises \<^verbatim>\<open>ValueError\<close>.
\<close>

definition checksum_blocks :: "'h hasher_api \<Rightarrow> nat \<Rightarrow> bytes \<Rightarrow> error + string" where
  "checksum_blocks H block_size content =
     (if block_size = 0 then Inl (ValueError ''range() arg 3 must not be zero'')
      else Inr (hexdigest H (feed_blocks H block_size content 0 (new_hasher H))))"

text \<open>The handler's own block size is \<^verbatim>\<open>2**10\<close>.\<close>

definition upload_checksum :: "'h hasher_api \<Rightarrow> bytes \<Rightarrow> error + string" where
  "upload_checksum H content = checksum_blocks H (2 ^ 10) content"

text \<open>A hasher that keeps the bytes it was fed, for evaluation at concrete inputs.\<close>

definition list_hasher :: "bytes hasher_api" where
  "list_hasher =
     \<lparr> new_hasher = [], hasher_update = (\<lambda>h b. h @ b),
       hexdigest = map (\<lambda>w. char_of (unat w)) \<rparr>"

section \<open>Tables, requests and effects\<close>

datatype table_type = action | knowledge | chat

fun table_type_value :: "table_type \<Rightarrow> string" where
  "table_type_value action = ''action''"
| "table_type_value knowledge = ''knowledge''"
| "table_type_value chat = ''chat''"

record Config =
  owl_db_dir :: string
  owl_reindex_period_sec :: int
  owl_immediate_reindex_max_rows :: int
  owl_optimize_period_sec :: int
  owl_remove_version_older_than_days :: int
  owl_concurrent_rows_batch_size :: int
  owl_concurrent_cols_batch_size :: int

text \<open>The defaults of the settings class; each can be overridden from the environment.\<close>

definition default_config :: Config where
  "default_config =
     \<lparr> owl_db_dir = ''db'', owl_reindex_period_sec = 60,
       owl_immediate_reindex_max_rows = 2000, owl_optimize_period_sec = 60,
       owl_remove_version_older_than_days = 7, owl_concurrent_rows_batch_size = 3,
       owl_concurrent_cols_batch_size = 5 \<rparr>"

text \<open>
  A storage handle: the class of the table and the paths it was constructed with
  (sqlite path and lance path; for the file table its path and table name). The
  read-consistency interval is \<^verbatim>\<open>timedelta(seconds=0)\<close> in every constructor call.
\<close>

datatype table =
    ActionTable string string
  | KnowledgeTable string string
  | ChatTable string string
  | FileTable string string

fun is_file_table :: "table \<Rightarrow> bool" where
  "is_file_table (FileTable _ _) = True"
| "is_file_table _ = False"

datatype session = Session table

text \<open>\<^verbatim>\<open>request.state\<close>: the fields the handlers read.\<close>

record Request =
  req_id :: string
  org_id :: string
  project_id :: string

record api_keys =
  openai_api_key :: string
  anthropic_api_key :: string
  gemini_api_key :: string
  cohere_api_key :: string
  groq_api_key :: string
  together_api_key :: string
  jina_api_key :: string
  voyage_api_key :: string

text \<open>
  A cell value (\<^verbatim>\<open>Any\<close>) is a string, a number or an embedding vector; vectors are
  arrays of floating-point numbers and stay abstract (\<open>'v\<close>). A row is a dict from
  column name to value, kept in insertion order.
\<close>

datatype 'v cell = Str string | Num int | Vec 'v

type_synonym 'v row = "(string \<times> 'v cell) list"

record 'v RowAddRequest =
  add_table_id :: string
  add_data :: "'v row list"
  add_stream :: bool
  add_reindex :: "bool option"

record RowRegenRequest =
  regen_table_id :: string
  regen_row_ids :: "string list"
  regen_stream :: bool
  regen_reindex :: "bool option"

record 'v RowUpdateRequest =
  upd_table_id :: string
  upd_row_id :: string
  upd_data :: "'v row"
  upd_reindex :: "bool option"

datatype 'v gen_body = AddBody "'v RowAddRequest" | RegenBody RowRegenRequest

datatype 'v response = StreamingResponse "'v row list" | GenRowsResult "'v row list"

datatype OkResponse = OkResponse

record Chunk =
  chunk_text :: string

type_synonym gen_config = "(string \<times> string) list option"

text \<open>
  A column of the table metadata: \<^verbatim>\<open>col["id"]\<close>, \<^verbatim>\<open>col["vlen"]\<close>,
  \<^verbatim>\<open>col["dtype"]\<close>, \<^verbatim>\<open>col["gen_config"]\<close>.
\<close>

record col =
  col_id :: string
  vlen :: int
  dtype :: string
  gen_config :: gen_config

record TableMeta =
  meta_id :: string
  cols :: "col list"

text \<open>\<^verbatim>\<open>file_info["ID"]\<close>, \<^verbatim>\<open>file_info["File Name"]\<close>, \<^verbatim>\<open>file_info["Content"]\<close>.\<close>

record file_info =
  file_ID :: string
  file_File_Name :: string
  file_Content :: bytes

record CloudEmbedder =
  embedder_name :: string
  api_key :: string

datatype ChatEntry = system string | user string

text \<open>The directory tree under \<^verbatim>\<open>owl_db_dir\<close>, as \<^verbatim>\<open>iterdir\<close> lists it.\<close>

record project_dir =
  project_name :: string
  project_is_dir :: bool

record org_dir =
  org_name :: string
  org_is_dir :: bool
  org_iterdir :: "project_dir list"

text \<open>
  The effects of a handler on its collaborators, in program order: log records, lock
  operations, a task handed to
  \<^verbatim>\<open>bg_tasks.add_task(table.create_indexes, session, table_id)\<close>, and the mutating
  calls into the storage engine and the generation executor. Read-only calls
  (row counts, metadata, model listing, embedding) leave no record.

  A log record keeps the level, the text of the message and its integer arguments (each
  \<^verbatim>\<open>{}\<close> of the text stands for the next one). Where the source formats a request
  body or a schema into the message, the text ends before it.
\<close>

datatype level = INFO | DEBUG | EXCEPTION

datatype 'v event =
    Log level string "int list"
  | TryLock string
  | ReleaseLock string
  | AddTask table string
  | CreateIndexes table string
  | CompactFiles table "string option"
  | CleanupOldVersions table "string option" int
  | GenRows table "'v gen_body"
  | UpdateRows table string string "'v row"
  | AddFile table string bytes string

fun is_AddTask :: "'v event \<Rightarrow> bool" where
  "is_AddTask (AddTask _ _) = True"
| "is_AddTask _ = False"

fun is_GenRows :: "'v event \<Rightarrow> bool" where
  "is_GenRows (GenRows _ _) = True"
| "is_GenRows _ = False"

fun is_UpdateRows :: "'v event \<Rightarrow> bool" where
  "is_UpdateRows (UpdateRows _ _ _ _) = True"
| "is_UpdateRows _ = False"

fun is_table_visit :: "'v event \<Rightarrow> bool" where
  "is_table_visit (CreateIndexes _ _) = True"
| "is_table_visit (CompactFiles _ _) = True"
| "is_table_visit (CleanupOldVersions _ _ _) = True"
| "is_table_visit _ = False"

text \<open>
  The collaborators, which live outside this file, as parameters: each returns a value
  or the exception it raises. \<open>table_metas\<close> is the list of table metadata the storage
  engine holds for a handle (with no parent); \<open>acquire_lock\<close> is the non-blocking
  \<^verbatim>\<open>FileLock\<close>: \<open>None\<close> when acquired, \<open>Some Timeout\<close> when it is already held.
\<close>

record 'v env =
  config :: Config
  count_rows :: "table \<Rightarrow> string \<Rightarrow> error + int"
  gen_rows :: "table \<Rightarrow> Request \<Rightarrow> 'v gen_body \<Rightarrow> int \<Rightarrow> int \<Rightarrow> api_keys \<Rightarrow> error + 'v row list"
  update_rows :: "table \<Rightarrow> string \<Rightarrow> string \<Rightarrow> 'v row \<Rightarrow> error + unit"
  create_indexes :: "table \<Rightarrow> string \<Rightarrow> error + bool"
  compact_files :: "table \<Rightarrow> string option \<Rightarrow> error + bool"
  cleanup_old_versions :: "table \<Rightarrow> string option \<Rightarrow> int \<Rightarrow> error + bool"
  acquire_lock :: "string \<Rightarrow> error option"
  db_iterdir :: "org_dir list"
  table_metas :: "table \<Rightarrow> error + TableMeta list"
  open_meta :: "table \<Rightarrow> string \<Rightarrow> error + TableMeta"
  file_table_add_file :: "table \<Rightarrow> string \<Rightarrow> bytes \<Rightarrow> string \<Rightarrow> error + file_info"
  load_file :: "string \<Rightarrow> bytes \<Rightarrow> error + Chunk list"
  split_chunks :: "Chunk list \<Rightarrow> int \<Rightarrow> int \<Rightarrow> error + Chunk list"
  DEFAULT_CHAT_MODEL :: string
  model_names :: "string \<Rightarrow> string list \<Rightarrow> api_keys \<Rightarrow> error + string list"
  predict :: "Request \<Rightarrow> string \<Rightarrow> ChatEntry list \<Rightarrow> api_keys \<Rightarrow> error + string"
  EmbedGenConfig_model_validate :: "gen_config \<Rightarrow> error + string"
  get_api_key :: "string \<Rightarrow> api_keys \<Rightarrow> string"
  embed_documents :: "CloudEmbedder \<Rightarrow> string list \<Rightarrow> error + 'v list"
  np_asarray :: "'v list \<Rightarrow> string \<Rightarrow> error + 'v list"
  np_divide_by_norm :: "'v list \<Rightarrow> error + 'v list"
  RowAddRequest_reindex_default :: "bool option"

section \<open>Table handles\<close>

definition get_gen_table :: "Config \<Rightarrow> string \<Rightarrow> string \<Rightarrow> table_type \<Rightarrow> table" where
  "get_gen_table cfg org project tt =
     (let lance_path = owl_db_dir cfg @ ''/'' @ org @ ''/'' @ project @ ''/'' @ table_type_value tt;
          sqlite_path = ''sqlite:///'' @ lance_path @ ''.db''
      in if tt = action then ActionTable sqlite_path lance_path
         else if tt = knowledge then KnowledgeTable sqlite_path lance_path
         else ChatTable sqlite_path lance_path)"

definition get_file_table :: "Config \<Rightarrow> string \<Rightarrow> string \<Rightarrow> table" where
  "get_file_table cfg org project =
     FileTable (owl_db_dir cfg @ ''/'' @ org @ ''/'' @ project @ ''/file'') ''file''"

section \<open>Exceptions and effects of a handler\<close>

text \<open>
  A step of a handler yields the effects it performed and a value or an exception;
  \<open>bind\<close> runs the next step if the first returned, and keeps the effects of both.
\<close>

type_synonym ('v, 'a) step = "'v event list \<times> (error + 'a)"

definition bind :: "('v, 'a) step \<Rightarrow> ('a \<Rightarrow> ('v, 'b) step) \<Rightarrow> ('v, 'b) step" where
  "bind m f =
     (case m of
        (evs, Inl e) \<Rightarrow> (evs, Inl e)
      | (evs, Inr x) \<Rightarrow> (case f x of (evs', r) \<Rightarrow> (evs @ evs', r)))"

text \<open>
  The handlers' common tail:
  \<^verbatim>\<open>except OwlException: raise\<close>, \<^verbatim>\<open>except Exception: logger.exception(msg); raise\<close>.
\<close>

definition reraise :: "string \<Rightarrow> ('v, 'a) step \<Rightarrow> ('v, 'a) step" where
  "reraise msg m =
     (case m of
        (evs, Inl e) \<Rightarrow>
          if is_OwlException e then (evs, Inl e) else (evs @ [Log EXCEPTION msg []], Inl e)
      | (evs, Inr x) \<Rightarrow> (evs, Inr x))"

section \<open>Row handlers\<close>

text \<open>
  The reindex decision shared by the row handlers:
  \<^verbatim>\<open>body.reindex or (body.reindex is None and table.count_rows(table_id) <= config.owl_immediate_reindex_max_rows)\<close>.
  The rows are counted only when \<^verbatim>\<open>body.reindex\<close> is \<^verbatim>\<open>None\<close>.
\<close>

definition reindex_wanted :: "'v env \<Rightarrow> table \<Rightarrow> string \<Rightarrow> bool option \<Rightarrow> error + bool" where
  "reindex_wanted env table table_id reindex =
     (case reindex of
        Some True \<Rightarrow> Inr True
      | Some False \<Rightarrow> Inr False
      | None \<Rightarrow>
          (case count_rows env table table_id of
             Inl e \<Rightarrow> Inl e
           | Inr n \<Rightarrow> Inr (n \<le> owl_immediate_reindex_max_rows (config env))))"

text \<open>
  The executor is constructed and \<^verbatim>\<open>gen_rows\<close> awaited; the result is wrapped in a
  \<^verbatim>\<open>StreamingResponse\<close> when \<^verbatim>\<open>body.stream\<close> is set.
\<close>

definition run_executor ::
  "'v env \<Rightarrow> table \<Rightarrow> Request \<Rightarrow> 'v gen_body \<Rightarrow> bool \<Rightarrow> api_keys \<Rightarrow> ('v, 'v response) step" where
  "run_executor env table request body stream keys =
     (case gen_rows env table request body
             (owl_concurrent_rows_batch_size (config env))
             (owl_concurrent_cols_batch_size (config env)) keys of
        Inl e \<Rightarrow> ([GenRows table body], Inl e)
      | Inr rows \<Rightarrow>
          ([GenRows table body],
           Inr (if stream then StreamingResponse rows else GenRowsResult rows)))"

definition add_rows ::
  "'v env \<Rightarrow> Request \<Rightarrow> table_type \<Rightarrow> 'v RowAddRequest \<Rightarrow> api_keys \<Rightarrow> ('v, 'v response) step" where
  "add_rows env request tt body keys =
     reraise ''Failed to add row to table: ''
       (let table = get_gen_table (config env) (org_id request) (project_id request) tt in
        bind ([], reindex_wanted env table (add_table_id body) (add_reindex body))
          (\<lambda>wanted.
             bind (if wanted then [AddTask table (add_table_id body)] else [], Inr ())
               (\<lambda>_. run_executor env table request (AddBody body) (add_stream body) keys)))"

definition regen_rows ::
  "'v env \<Rightarrow> Request \<Rightarrow> table_type \<Rightarrow> RowRegenRequest \<Rightarrow> api_keys \<Rightarrow> ('v, 'v response) step" where
  "regen_rows env request tt body keys =
     reraise ''Failed to regen row of table: ''
       (let table = get_gen_table (config env) (org_id request) (project_id request) tt in
        bind ([], reindex_wanted env table (regen_table_id body) (regen_reindex body))
          (\<lambda>wanted.
             bind (if wanted then [AddTask table (regen_table_id body)] else [], Inr ())
               (\<lambda>_. run_executor env table request (RegenBody body) (regen_stream body) keys)))"

text \<open>
  \<^verbatim>\<open>str.lower\<close>. Strings are byte strings in UTF-8; on them \<^verbatim>\<open>lower\<close> is modelled on
  the ASCII letters. (No character outside ASCII lowers to a letter of
  \<^verbatim>\<open>text embed\<close> or \<^verbatim>\<open>title embed\<close>, so the test below is the one Python makes.)
\<close>

definition lower_char :: "char \<Rightarrow> char" where
  "lower_char c =
     (let n = (of_char c :: nat) in if 65 \<le> n \<and> n \<le> 90 then char_of (n + 32) else c)"

definition lower :: "string \<Rightarrow> string" where
  "lower s = map lower_char s"

definition update_row ::
  "'v env \<Rightarrow> Request \<Rightarrow> table_type \<Rightarrow> 'v RowUpdateRequest \<Rightarrow> ('v, OkResponse) step" where
  "update_row env request tt body =
     reraise ''Failed to update rows (by ID) of table: ''
       (let table = get_gen_table (config env) (org_id request) (project_id request) tt;
            col_names = set (map lower (map fst (upd_data body)));
            where_clause = ''`ID` = '' @ [CHR 0x27] @ upd_row_id body @ [CHR 0x27]
        in if tt = knowledge \<and> (''text embed'' \<in> col_names \<or> ''title embed'' \<in> col_names)
           then ([], Inl (TableSchemaFixedError ''Cannot update 'Text Embed' or 'Title Embed'.''))
           else
             bind ([UpdateRows table (upd_table_id body) where_clause (upd_data body)],
                   update_rows env table (upd_table_id body) where_clause (upd_data body))
               (\<lambda>_. bind ([], reindex_wanted env table (upd_table_id body) (upd_reindex body))
                  (\<lambda>wanted.
                     (if wanted then [AddTask table (upd_table_id body)] else [],
                      Inr OkResponse))))"

section \<open>Enumerating the tables\<close>

text \<open>
  \<^verbatim>\<open>table.list_meta(session, offset, limit, remove_state_cols=True, parent_id=None)\<close>
  belongs to the storage engine; it is taken by its paging contract, the one
  \<^verbatim>\<open>list_tables\<close> hands on to its caller as a page: the slice of the stored metadata
  from \<open>offset\<close>, at most \<open>limit\<close> long, and the total count.
\<close>

definition list_meta :: "'v env \<Rightarrow> table \<Rightarrow> nat \<Rightarrow> nat \<Rightarrow> error + (TableMeta list \<times> nat)" where
  "list_meta env table offset limit =
     (case table_metas env table of
        Inl e \<Rightarrow> Inl e
      | Inr metas \<Rightarrow> Inr (take limit (drop offset metas), length metas))"

text \<open>
  What a consumer of the generator \<^verbatim>\<open>_iter_all_tables\<close> sees: the tuples
  \<^verbatim>\<open>(session, table, meta, table_path)\<close> yielded, and the exception that ended the
  generator, if one did. The generator is always called with its default batch size.
\<close>

type_synonym item = "session option \<times> table \<times> TableMeta option \<times> string"

definition batch_size :: nat where
  "batch_size = 200"

text \<open>
  \<^verbatim>\<open>while offset < total: metas, total = table.list_meta(...); offset += batch_size; for meta in metas: yield ...\<close>
\<close>

function iter_metas :: "'v env \<Rightarrow> table \<Rightarrow> string \<Rightarrow> nat \<Rightarrow> nat \<Rightarrow> item list \<times> error option" where
  "iter_metas env table dir offset n_total =
     (if offset < n_total then
        (case list_meta env table offset batch_size of
           Inl e \<Rightarrow> ([], Some e)
         | Inr (metas, n_total') \<Rightarrow>
             (case iter_metas env table dir (offset + batch_size) n_total' of
                (rest, err) \<Rightarrow>
                  (map (\<lambda>meta. (Some (Session table), table, Some meta, dir @ ''/'' @ meta_id meta)) metas
                     @ rest, err)))
      else ([], None))"
  by pat_completeness auto
termination
proof (relation "measure (\<lambda>(env, table, dir, offset, n_total).
          (case table_metas env table of Inl e \<Rightarrow> n_total | Inr metas \<Rightarrow> max n_total (length metas)) - offset)")
  show "wf (measure (\<lambda>(env :: 'v env, table, dir :: string, offset, n_total).
          (case table_metas env table of Inl e \<Rightarrow> n_total | Inr metas \<Rightarrow> max n_total (length metas)) - offset))"
    by simp
next
  fix env :: "'v env" and table :: table and dir :: string and offset n_total :: nat
    and x2 :: "TableMeta list \<times> nat" and x y
  assume "offset < n_total" and "list_meta env table offset batch_size = Inr x2" and "(x, y) = x2"
  then show "((env, table, dir, offset + batch_size, y), env, table, dir, offset, n_total)
      \<in> measure (\<lambda>(env, table, dir, offset, n_total).
          (case table_metas env table of Inl e \<Rightarrow> n_total | Inr metas \<Rightarrow> max n_total (length metas)) - offset)"
    by (auto simp: list_meta_def batch_size_def split: sum.splits)
qed

declare iter_metas.simps [simp del]

text \<open>\<^verbatim>\<open>for table_type in table_types\<close>, inside one project directory.\<close>

fun iter_table_types ::
  "'v env \<Rightarrow> string \<Rightarrow> string \<Rightarrow> table_type list \<Rightarrow> item list \<times> error option" where
  "iter_table_types env org project [] = ([], None)"
| "iter_table_types env org project (tt # tts) =
     (let table = get_gen_table (config env) org project tt;
          project_path = owl_db_dir (config env) @ ''/'' @ org @ ''/'' @ project
      in case iter_metas env table (project_path @ ''/'' @ table_type_value tt) 0 1 of
           (items, Some e) \<Rightarrow> (items, Some e)
         | (items, None) \<Rightarrow>
             (case iter_table_types env org project tts of
                (rest, err) \<Rightarrow> (items @ rest, err)))"

text \<open>
  \<^verbatim>\<open>for project_dir in org_dir.iterdir()\<close>: the generative tables of each project
  directory, then its file table, yielded with no session and no metadata.
\<close>

fun iter_projects :: "'v env \<Rightarrow> string \<Rightarrow> project_dir list \<Rightarrow> item list \<times> error option" where
  "iter_projects env org [] = ([], None)"
| "iter_projects env org (p # ps) =
     (if \<not> project_is_dir p then iter_projects env org ps
      else
        (case iter_table_types env org (project_name p) [action, knowledge, chat] of
           (items, Some e) \<Rightarrow> (items, Some e)
         | (items, None) \<Rightarrow>
             (case iter_projects env org ps of
                (rest, err) \<Rightarrow>
                  (items
                     @ [(None, get_file_table (config env) org (project_name p), None,
                         owl_db_dir (config env) @ ''/'' @ org @ ''/'' @ project_name p @ ''/file/file'')]
                     @ rest, err))))"

fun iter_orgs :: "'v env \<Rightarrow> org_dir list \<Rightarrow> item list \<times> error option" where
  "iter_orgs env [] = ([], None)"
| "iter_orgs env (d # ds) =
     (if \<not> org_is_dir d then iter_orgs env ds
      else
        (case iter_projects env (org_name d) (org_iterdir d) of
           (items, Some e) \<Rightarrow> (items, Some e)
         | (items, None) \<Rightarrow>
             (case iter_orgs env ds of (rest, err) \<Rightarrow> (items @ rest, err))))"

definition iter_all_tables :: "'v env \<Rightarrow> item list \<times> error option" where
  "iter_all_tables env = iter_orgs env (db_iterdir env)"

section \<open>Periodic maintenance\<close>

datatype outcome = ok | skipped | failed

text \<open>The three counters \<^verbatim>\<open>num_ok\<close>, \<^verbatim>\<open>num_skipped\<close>, \<^verbatim>\<open>num_failed\<close>.\<close>

type_synonym counters = "nat \<times> nat \<times> nat"

fun count_outcome :: "outcome \<Rightarrow> counters \<Rightarrow> counters" where
  "count_outcome ok (num_ok, num_skipped, num_failed) = (num_ok + 1, num_skipped, num_failed)"
| "count_outcome skipped (num_ok, num_skipped, num_failed) = (num_ok, num_skipped + 1, num_failed)"
| "count_outcome failed (num_ok, num_skipped, num_failed) = (num_ok, num_skipped, num_failed + 1)"

text \<open>
  The handlers around the lock: \<^verbatim>\<open>except Timeout\<close> logs the tick as skipped,
  \<^verbatim>\<open>except Exception\<close> logs an error; neither re-raises.
\<close>

definition tick_failed :: "string \<Rightarrow> error \<Rightarrow> 'v event list" where
  "tick_failed job e =
     (if e = Timeout then [Log INFO (''Periodic Lance '' @ job @ '' skipped.'') []]
      else [Log EXCEPTION (''Periodic Lance '' @ job @ '' encountered an error.'') []])"

text \<open>
  The body of the reindex loop for one yielded tuple. The file table comes with no
  session and is passed over; \<^verbatim>\<open>meta.id\<close> of a missing \<^verbatim>\<open>meta\<close> would raise inside
  the \<^verbatim>\<open>try\<close>.
\<close>

fun reindex_table :: "'v env \<Rightarrow> item \<Rightarrow> 'v event list \<times> outcome option" where
  "reindex_table env (None, table, meta, table_path) = ([], None)"
| "reindex_table env (Some session, table, None, table_path) =
     ([Log EXCEPTION (''Periodic Lance re-indexing failed for table: '' @ table_path) []],
      Some failed)"
| "reindex_table env (Some session, table, Some meta, table_path) =
     (case create_indexes env table (meta_id meta) of
        Inl e \<Rightarrow>
          ([CreateIndexes table (meta_id meta),
            Log EXCEPTION (''Periodic Lance re-indexing failed for table: '' @ table_path) []],
           Some failed)
      | Inr reindexed \<Rightarrow>
          ([CreateIndexes table (meta_id meta)], Some (if reindexed then ok else skipped)))"

fun reindex_tables :: "'v env \<Rightarrow> item list \<Rightarrow> counters \<Rightarrow> 'v event list \<times> counters" where
  "reindex_tables env [] counts = ([], counts)"
| "reindex_tables env (it # items) counts =
     (case reindex_table env it of
        (evs, out) \<Rightarrow>
          (case reindex_tables env items
                  (case out of None \<Rightarrow> counts | Some r \<Rightarrow> count_outcome r counts) of
             (evs', counts') \<Rightarrow> (evs @ evs', counts')))"

definition periodic_reindex :: "'v env \<Rightarrow> 'v event list" where
  "periodic_reindex env =
     (let lock = owl_db_dir (config env) @ ''/periodic_reindex.lock'' in
      case acquire_lock env lock of
        Some e \<Rightarrow> [TryLock lock] @ tick_failed ''re-indexing'' e
      | None \<Rightarrow>
          (case iter_all_tables env of
             (items, err) \<Rightarrow>
               (case reindex_tables env items (0, 0, 0) of
                  (evs, (num_ok, num_skipped, num_failed)) \<Rightarrow>
                    [TryLock lock, Log INFO ''Periodic Lance re-indexing started.'' []]
                      @ evs @ [ReleaseLock lock]
                      @ (case err of
                           None \<Rightarrow>
                             [Log INFO ''Periodic Lance re-indexing completed ({:,d} OK, {:,d} skipped, {:,d} failed).''
                                [int num_ok, int num_skipped, int num_failed]]
                         | Some e \<Rightarrow> tick_failed ''re-indexing'' e))))"

text \<open>
  The two sub-steps of the optimize loop, on a table and an optional table id:
  \<^verbatim>\<open>done = True; done = done and table.compact_files(id); done = done and table.cleanup_old_versions(id, older_than=...)\<close>.
  Python's \<^verbatim>\<open>and\<close> evaluates its right operand only if the left one is true.
\<close>

definition compact_and_cleanup :: "'v env \<Rightarrow> table \<Rightarrow> string option \<Rightarrow> ('v, bool) step" where
  "compact_and_cleanup env table tid =
     bind ([CompactFiles table tid], compact_files env table tid)
       (\<lambda>done.
          if done then
            ([CleanupOldVersions table tid (owl_remove_version_older_than_days (config env))],
             cleanup_old_versions env table tid (owl_remove_version_older_than_days (config env)))
          else ([], Inr done))"

fun optimize_table :: "'v env \<Rightarrow> item \<Rightarrow> 'v event list \<times> outcome" where
  "optimize_table env (session, table, meta, table_path) =
     (case compact_and_cleanup env table (case meta of None \<Rightarrow> None | Some m \<Rightarrow> Some (meta_id m)) of
        (evs, Inl e) \<Rightarrow>
          (evs @ [Log EXCEPTION (''Periodic Lance optimization failed for table: '' @ table_path) []],
           failed)
      | (evs, Inr done) \<Rightarrow> (evs, if done then ok else skipped))"

fun optimize_tables :: "'v env \<Rightarrow> item list \<Rightarrow> counters \<Rightarrow> 'v event list \<times> counters" where
  "optimize_tables env [] counts = ([], counts)"
| "optimize_tables env (it # items) counts =
     (case optimize_table env it of
        (evs, out) \<Rightarrow>
          (case optimize_tables env items (count_outcome out counts) of
             (evs', counts') \<Rightarrow> (evs @ evs', counts')))"

definition periodic_optimize :: "'v env \<Rightarrow> 'v event list" where
  "periodic_optimize env =
     (let lock = owl_db_dir (config env) @ ''/periodic_optimization.lock'' in
      case acquire_lock env lock of
        Some e \<Rightarrow> [TryLock lock] @ tick_failed ''optimization'' e
      | None \<Rightarrow>
          (case iter_all_tables env of
             (items, err) \<Rightarrow>
               (case optimize_tables env items (0, 0, 0) of
                  (evs, (num_ok, num_skipped, num_failed)) \<Rightarrow>
                    [TryLock lock, Log INFO ''Periodic Lance optimization started.'' []]
                      @ evs @ [ReleaseLock lock]
                      @ (case err of
                           None \<Rightarrow>
                             [Log INFO ''Periodic Lance optimization completed ({:,d} OK, {:,d} skipped, {:,d} failed).''
                                [int num_ok, int num_skipped, int num_failed]]
                         | Some e \<Rightarrow> tick_failed ''optimization'' e))))"

section \<open>File ingestion\<close>

text \<open>
  \<^verbatim>\<open>_embed\<close>: the embedder is called, the result converted to an array of the column's
  dtype and each row divided by its norm. The two numpy steps compute in floating point
  and are parameters of the model; each can raise.
\<close>

definition embed :: "'v env \<Rightarrow> CloudEmbedder \<Rightarrow> string list \<Rightarrow> string \<Rightarrow> error + 'v list" where
  "embed env embedder texts embed_dtype =
     (case embed_documents env embedder texts of
        Inl e \<Rightarrow> Inl e
      | Inr embeddings \<Rightarrow>
          (case np_asarray env embeddings embed_dtype of
             Inl e \<Rightarrow> Inl e
           | Inr arr \<Rightarrow> np_divide_by_norm env arr))"

text \<open>\<^verbatim>\<open>str.strip\<close>, on the ASCII white space.\<close>

definition is_space :: "char \<Rightarrow> bool" where
  "is_space c = (let n = (of_char c :: nat) in (9 \<le> n \<and> n \<le> 13) \<or> (28 \<le> n \<and> n \<le> 32))"

definition strip :: "string \<Rightarrow> string" where
  "strip s = rev (dropWhile is_space (rev (dropWhile is_space s)))"

text \<open>
  \<^verbatim>\<open>title = response.text.strip()\<close>, then
  \<^verbatim>\<open>if title.startswith('"') and title.endswith('"'): title = title[1:-1]\<close>.
\<close>

definition clean_title :: "string \<Rightarrow> string" where
  "clean_title text =
     (let title = strip text in
      case title of
        [] \<Rightarrow> title
      | c # cs \<Rightarrow> if c = CHR 0x22 \<and> last title = CHR 0x22 then butlast cs else title)"

definition title_messages :: "string \<Rightarrow> ChatEntry list" where
  "title_messages excerpt =
     [system ''You are an concise assistant.'',
      user (''CONTEXT:'' @ [CHR 0x0A] @ excerpt @ [CHR 0x0A, CHR 0x0A]
            @ ''From the excerpt, extract the document title or guess a possible title. ''
            @ ''Provide the title without explanation.'')]"

text \<open>
  The title section of \<^verbatim>\<open>_add_file\<close>: the model is chosen (\<^verbatim>\<open>model[0]\<close> of the list
  \<^verbatim>\<open>model_names\<close> returns) before the \<^verbatim>\<open>try\<close>; the \<^verbatim>\<open>try\<close> holds the
  \<^verbatim>\<open>predict\<close> call and the clean-up of its text, and its handler sets the title to the
  empty string. The sampling arguments of the call are constants
  (\<^verbatim>\<open>max_tokens=200, temperature=0.01, top_p=0.01, stream=False\<close>) and are not passed
  to the parameter \<open>predict\<close>.
\<close>

definition extract_title ::
  "'v env \<Rightarrow> Request \<Rightarrow> string \<Rightarrow> Chunk list \<Rightarrow> api_keys \<Rightarrow> ('v, string) step" where
  "extract_title env request request_id chunks keys =
     (let excerpt = concat (map chunk_text (take 8 chunks)) in
      bind ([], model_names env (DEFAULT_CHAT_MODEL env) [''chat''] keys)
        (\<lambda>models.
           case models of
             [] \<Rightarrow> ([], Inl (IndexError ''list index out of range''))
           | model # _ \<Rightarrow>
               (case predict env request model (title_messages excerpt) keys of
                  Inl e \<Rightarrow>
                    ([Log DEBUG (request_id @ '' - Performing title extraction using: '' @ model) [],
                      Log EXCEPTION
                        (request_id @ '' - Title extraction errored for excerpt: ''
                           @ [CHR 0x0A] @ excerpt @ [CHR 0x0A]) []],
                     Inr [])
                | Inr text \<Rightarrow>
                    ([Log DEBUG (request_id @ '' - Performing title extraction using: '' @ model) []],
                     Inr (clean_title text)))))"

text \<open>
  \<^verbatim>\<open>for col in meta.cols\<close>, with the loop's two variables \<^verbatim>\<open>title_embed\<close>
  (\<open>None\<close> at first) and \<^verbatim>\<open>text_embeds\<close> (empty at first). \<^verbatim>\<open>_embed(...)[0]\<close> raises
  on an empty array.
\<close>

fun embed_cols ::
  "'v env \<Rightarrow> api_keys \<Rightarrow> string \<Rightarrow> Chunk list \<Rightarrow> col list \<Rightarrow> 'v option \<times> 'v list
     \<Rightarrow> error + ('v option \<times> 'v list)" where
  "embed_cols env keys title chunks [] (title_embed, text_embeds) = Inr (title_embed, text_embeds)"
| "embed_cols env keys title chunks (c # cs) (title_embed, text_embeds) =
     (if vlen c = 0 then embed_cols env keys title chunks cs (title_embed, text_embeds)
      else
        (case EmbedGenConfig_model_validate env (gen_config c) of
           Inl e \<Rightarrow> Inl e
         | Inr embedding_model \<Rightarrow>
             (let embedder = \<lparr> embedder_name = embedding_model,
                               api_key = get_api_key env embedding_model keys \<rparr>
              in if col_id c = ''Title Embed'' then
                   (case embed env embedder [title] (dtype c) of
                      Inl e \<Rightarrow> Inl e
                    | Inr [] \<Rightarrow> Inl (IndexError ''index 0 is out of bounds'')
                    | Inr (v # _) \<Rightarrow> embed_cols env keys title chunks cs (Some v, text_embeds))
                 else if col_id c = ''Text Embed'' then
                   (case embed env embedder (map chunk_text chunks) (dtype c) of
                      Inl e \<Rightarrow> Inl e
                    | Inr vs \<Rightarrow> embed_cols env keys title chunks cs (title_embed, vs))
                 else embed_cols env keys title chunks cs (title_embed, text_embeds))))"

text \<open>The rows built for the add request, one per pair of \<^verbatim>\<open>zip(chunks, text_embeds)\<close>.\<close>

definition row_add_data :: "Chunk list \<Rightarrow> 'v list \<Rightarrow> string \<Rightarrow> 'v \<Rightarrow> string \<Rightarrow> 'v row list" where
  "row_add_data chunks text_embeds title title_embed file_id =
     map (\<lambda>(chunk, text_embed).
            [(''Text'', Str (chunk_text chunk)),
             (''Text Embed'', Vec text_embed),
             (''Title'', Str title),
             (''Title Embed'', Vec title_embed),
             (''File ID'', Str file_id)])
         (zip chunks text_embeds)"

definition embedding_issue :: error where
  "embedding_issue =
     RuntimeError ''Sorry we encountered an issue during embedding. Please try again later.''"

text \<open>
  \<^verbatim>\<open>p.RowAddRequest(table_id=table_id, data=row_add_data, stream=False)\<close>; the
  \<^verbatim>\<open>reindex\<close> field takes the default of the request class.
\<close>

definition ingest_request :: "'v env \<Rightarrow> string \<Rightarrow> 'v row list \<Rightarrow> 'v RowAddRequest" where
  "ingest_request env table_id rows =
     \<lparr> add_table_id = table_id, add_data = rows, add_stream = False,
       add_reindex = RowAddRequest_reindex_default env \<rparr>"

text \<open>
  The second section of \<^verbatim>\<open>_add_file\<close>: the embedding columns are scanned, the rows
  built and handed to \<^verbatim>\<open>add_rows\<close> in one request with \<^verbatim>\<open>stream=False\<close> (and the
  request's default for \<^verbatim>\<open>reindex\<close>), and \<^verbatim>\<open>table.create_indexes\<close> is called in place.
\<close>

definition add_into_knowledge_table ::
  "'v env \<Rightarrow> Request \<Rightarrow> string \<Rightarrow> file_info \<Rightarrow> Chunk list \<Rightarrow> string \<Rightarrow> api_keys
     \<Rightarrow> ('v, OkResponse) step" where
  "add_into_knowledge_table env request table_id file_info chunks title keys =
     (let table = get_gen_table (config env) (org_id request) (project_id request) knowledge in
      bind ([], open_meta env table table_id)
        (\<lambda>meta.
           bind ([], embed_cols env keys title chunks (cols meta) (None, []))
             (\<lambda>(title_embed, text_embeds).
                case title_embed of
                  None \<Rightarrow> ([], Inl embedding_issue)
                | Some title_vec \<Rightarrow>
                    if length text_embeds = 0 then ([], Inl embedding_issue)
                    else
                      bind (add_rows env request knowledge
                              (ingest_request env table_id
                                 (row_add_data chunks text_embeds title title_vec (file_ID file_info)))
                              keys)
                        (\<lambda>_. bind ([CreateIndexes table table_id], create_indexes env table table_id)
                           (\<lambda>_. ([], Inr OkResponse))))))"

definition add_file ::
  "'v env \<Rightarrow> Request \<Rightarrow> string \<Rightarrow> string \<Rightarrow> file_info \<Rightarrow> int \<Rightarrow> int \<Rightarrow> api_keys
     \<Rightarrow> ('v, OkResponse) step" where
  "add_file env request request_id table_id file_info chunk_size chunk_overlap keys =
     (let file_name = file_File_Name file_info in
      bind ([], load_file env file_name (file_Content file_info))
        (\<lambda>loaded.
           bind ([Log DEBUG (''Splitting file: '' @ file_name) []],
                 split_chunks env loaded chunk_size chunk_overlap)
             (\<lambda>chunks.
                bind (extract_title env request request_id chunks keys)
                  (\<lambda>title.
                     add_into_knowledge_table env request table_id file_info chunks title keys))))"

text \<open>
  \<^verbatim>\<open>upload_file\<close>: the content is hashed block by block, the file registered in the
  file table with that checksum, and the record the file table returns handed to
  \<^verbatim>\<open>_add_file\<close>.
\<close>

definition upload_file ::
  "'v env \<Rightarrow> 'h hasher_api \<Rightarrow> Request \<Rightarrow> bytes \<Rightarrow> string \<Rightarrow> string \<Rightarrow> int \<Rightarrow> int \<Rightarrow> api_keys
     \<Rightarrow> ('v, OkResponse) step" where
  "upload_file env H request content file_name table_id chunk_size chunk_overlap keys =
     bind ([Log INFO
        (req_id request @ '' - Uploading file (file_name='' @ file_name @ ''  table_id='' @ table_id
           @ ''  chunk_size={}  chunk_overlap={})'') [chunk_size, chunk_overlap]], Inr ())
       (\<lambda>_. reraise (''['' @ org_id request @ ''/'' @ project_id request
                       @ ''] Failed to upload file into Knowledge Table: '' @ file_name)
          (let file_table = get_file_table (config env) (org_id request) (project_id request) in
           bind ([], upload_checksum H content)
             (\<lambda>checksum.
                bind ([AddFile file_table file_name content checksum],
                      file_table_add_file env file_table file_name content checksum)
                  (\<lambda>file_info.
                     add_file env request (req_id request) table_id file_info
                       chunk_size chunk_overlap keys))))"

section \<open>The numpy steps of the embedding in IEEE arithmetic\<close>

text \<open>
  The two numeric lines of \<^verbatim>\<open>_embed\<close>,
  \<^verbatim>\<open>embeddings = np.asarray(embeddings, dtype=embed_dtype)\<close> and
  \<^verbatim>\<open>embeddings = embeddings / np.linalg.norm(embeddings, axis=1, keepdims=True)\<close>,
  computed in the binary floating-point format of the dtype. A value is a rational
  number, an infinity or a NaN (zero has no sign here); every operation returns the
  exact result rounded to the nearest value of the format, ties to even, with gradual
  underflow and with overflow to an infinity.
\<close>

datatype fnum = Fin rat | PInf | NInf | NaN

text \<open>A format: the bits of the significand (the hidden bit counted) and the largest exponent.\<close>

record format =
  prec :: nat
  emax :: int

definition emin :: "format \<Rightarrow> int" where
  "emin fmt = 1 - emax fmt"

definition float16 :: format where
  "float16 = \<lparr> prec = 11, emax = 15 \<rparr>"

definition float32 :: format where
  "float32 = \<lparr> prec = 24, emax = 127 \<rparr>"

definition float64 :: format where
  "float64 = \<lparr> prec = 53, emax = 1023 \<rparr>"

text \<open>The floating-point dtypes by name; any other name is refused.\<close>

definition np_dtype :: "string \<Rightarrow> format option" where
  "np_dtype name =
     (if name = ''float16'' then Some float16
      else if name = ''float32'' then Some float32
      else if name = ''float64'' then Some float64
      else None)"

text \<open>The exponent of a positive rational: the \<open>e\<close> with \<open>2 powi e \<le> x < 2 powi (e + 1)\<close>.\<close>

definition ilog2 :: "rat \<Rightarrow> int" where
  "ilog2 x =
     (case quotient_of x of
        (a, b) \<Rightarrow> (let k = bitlen a - bitlen b in if 2 powi k \<le> x then k else k - 1))"

definition round_half_even :: "rat \<Rightarrow> int" where
  "round_half_even r =
     (let f = \<lfloor>r\<rfloor>; d = r - of_int f
      in if d < 1 / 2 then f else if 1 / 2 < d then f + 1 else if even f then f else f + 1)"

text \<open>The spacing of the format's values around a number with exponent \<open>e\<close>.\<close>

definition quantum :: "format \<Rightarrow> int \<Rightarrow> rat" where
  "quantum fmt e = 2 powi (max e (emin fmt) - int (prec fmt) + 1)"

definition overflows :: "format \<Rightarrow> rat \<Rightarrow> bool" where
  "overflows fmt v \<longleftrightarrow> 2 powi (emax fmt + 1) \<le> \<bar>v\<bar>"

text \<open>Rounding a rational number to the format.\<close>

definition fl :: "format \<Rightarrow> rat \<Rightarrow> fnum" where
  "fl fmt r =
     (if r = 0 then Fin 0
      else
        (let q = quantum fmt (ilog2 \<bar>r\<bar>);
             v = of_int (round_half_even (r / q)) * q
         in if overflows fmt v then (if 0 < r then PInf else NInf) else Fin v))"

text \<open>Sign of a value that is not a NaN: \<open>-1\<close>, \<open>0\<close> or \<open>1\<close>.\<close>

fun fsign :: "fnum \<Rightarrow> int" where
  "fsign (Fin r) = (if r < 0 then - 1 else if r = 0 then 0 else 1)"
| "fsign PInf = 1"
| "fsign NInf = - 1"
| "fsign NaN = 0"

definition signed_inf :: "int \<Rightarrow> fnum" where
  "signed_inf s = (if s = 0 then NaN else if 0 < s then PInf else NInf)"

fun fmul :: "format \<Rightarrow> fnum \<Rightarrow> fnum \<Rightarrow> fnum" where
  "fmul fmt (Fin a) (Fin b) = fl fmt (a * b)"
| "fmul fmt NaN y = NaN"
| "fmul fmt x NaN = NaN"
| "fmul fmt x y = signed_inf (fsign x * fsign y)"

fun fadd :: "format \<Rightarrow> fnum \<Rightarrow> fnum \<Rightarrow> fnum" where
  "fadd fmt (Fin a) (Fin b) = fl fmt (a + b)"
| "fadd fmt NaN y = NaN"
| "fadd fmt x NaN = NaN"
| "fadd fmt PInf NInf = NaN"
| "fadd fmt NInf PInf = NaN"
| "fadd fmt (Fin a) y = y"
| "fadd fmt x y = x"

fun fdiv :: "format \<Rightarrow> fnum \<Rightarrow> fnum \<Rightarrow> fnum" where
  "fdiv fmt (Fin a) (Fin b) = (if b = 0 then signed_inf (fsign (Fin a)) else fl fmt (a / b))"
| "fdiv fmt NaN y = NaN"
| "fdiv fmt x NaN = NaN"
| "fdiv fmt (Fin a) y = Fin 0"
| "fdiv fmt x (Fin b) = signed_inf (fsign x * (if b < 0 then - 1 else 1))"
| "fdiv fmt x y = NaN"

text \<open>The integer square root, by halving the argument two bits at a time.\<close>

function isqrt :: "int \<Rightarrow> int" where
  "isqrt n =
     (if n < 2 then max n 0
      else (let r = 2 * isqrt (n div 4) in if (r + 1) * (r + 1) \<le> n then r + 1 else r))"
  by pat_completeness auto
termination
  by (relation "measure nat") auto

declare isqrt.simps [simp del]

text \<open>The square root of a positive rational, rounded to the format.\<close>

definition fl_sqrt :: "format \<Rightarrow> rat \<Rightarrow> fnum" where
  "fl_sqrt fmt r =
     (let q = quantum fmt (ilog2 r div 2);
          t = r / (q * q);
          f = isqrt \<lfloor>t\<rfloor>;
          h = (of_int f + 1 / 2) * (of_int f + 1 / 2);
          m = (if t < h then f else if h < t then f + 1 else if even f then f else f + 1)
      in Fin (of_int m * q))"

fun fsqrt :: "format \<Rightarrow> fnum \<Rightarrow> fnum" where
  "fsqrt fmt (Fin r) = (if r < 0 then NaN else if r = 0 then Fin 0 else fl_sqrt fmt r)"
| "fsqrt fmt PInf = PInf"
| "fsqrt fmt x = NaN"

text \<open>A row of a two-dimensional array, with the format of the array's dtype.\<close>

record ndrow =
  row_format :: format
  row_values :: "fnum list"

definition cast :: "format \<Rightarrow> fnum \<Rightarrow> fnum" where
  "cast fmt x = (case x of Fin r \<Rightarrow> fl fmt r | _ \<Rightarrow> x)"

text \<open>
  \<^verbatim>\<open>np.asarray(embeddings, dtype=embed_dtype)\<close> on a list of rows: an unknown dtype and
  rows of different lengths are refused.
\<close>

definition ieee_asarray :: "ndrow list \<Rightarrow> string \<Rightarrow> error + ndrow list" where
  "ieee_asarray embeddings embed_dtype =
     (case np_dtype embed_dtype of
        None \<Rightarrow> Inl (TypeError ''data type not understood'')
      | Some fmt \<Rightarrow>
          (case embeddings of
             [] \<Rightarrow> Inr []
           | first # _ \<Rightarrow>
               if \<exists>row \<in> set embeddings. length (row_values row) \<noteq> length (row_values first)
               then Inl (ValueError ''setting an array element with a sequence'')
               else Inr (map (\<lambda>row. \<lparr> row_format = fmt,
                                        row_values = map (cast fmt) (row_values row) \<rparr>)
                           embeddings)))"

text \<open>
  \<^verbatim>\<open>np.linalg.norm\<close> of one row: the square root of the sum of the squares, every
  operation in the format.
\<close>

definition sum_squares :: "format \<Rightarrow> fnum list \<Rightarrow> fnum" where
  "sum_squares fmt xs = foldl (fadd fmt) (Fin 0) (map (\<lambda>x. fmul fmt x x) xs)"

definition row_norm :: "format \<Rightarrow> fnum list \<Rightarrow> fnum" where
  "row_norm fmt xs = fsqrt fmt (sum_squares fmt xs)"

definition divide_row :: "format \<Rightarrow> fnum list \<Rightarrow> fnum list" where
  "divide_row fmt xs = map (\<lambda>x. fdiv fmt x (row_norm fmt xs)) xs"

text \<open>
  \<^verbatim>\<open>embeddings / np.linalg.norm(embeddings, axis=1, keepdims=True)\<close>. The array of an
  empty list of rows has one dimension, and the norm along axis 1 raises.
\<close>

definition ieee_divide_by_norm :: "ndrow list \<Rightarrow> error + ndrow list" where
  "ieee_divide_by_norm arr =
     (case arr of
        [] \<Rightarrow> Inl (AxisError ''axis 1 is out of bounds for array of dimension 1'')
      | _ \<Rightarrow>
          Inr (map (\<lambda>row. \<lparr> row_format = row_format row,
                             row_values = divide_row (row_format row) (row_values row) \<rparr>) arr))"

text \<open>An environment whose numpy steps are the ones above.\<close>

definition numpy_ieee :: "ndrow env \<Rightarrow> bool" where
  "numpy_ieee env \<longleftrightarrow> np_asarray env = ieee_asarray \<and> np_divide_by_norm env = ieee_divide_by_norm"

text \<open>The square of the L2 norm of a row of finite values.\<close>

fun finite_values :: "fnum list \<Rightarrow> rat list option" where
  "finite_values [] = Some []"
| "finite_values (Fin r # xs) = (case finite_values xs of None \<Rightarrow> None | Some rs \<Rightarrow> Some (r # rs))"
| "finite_values (x # xs) = None"

definition sq_norm :: "rat list \<Rightarrow> rat" where
  "sq_norm rs = sum_list (map (\<lambda>r. r * r) rs)"

text \<open>
  The L2 norm of a row is within \<open>tol\<close> of 1: all values are finite and the square of
  the norm lies between the squares of \<open>1 - tol\<close> and \<open>1 + tol\<close> (for \<open>0 \<le> tol \<le> 1\<close>).
\<close>

definition unit_norm_within :: "rat \<Rightarrow> fnum list \<Rightarrow> bool" where
  "unit_norm_within tol xs =
     (case finite_values xs of
        None \<Rightarrow> False
      | Some rs \<Rightarrow> (1 - tol) * (1 - tol) \<le> sq_norm rs \<and> sq_norm rs \<le> (1 + tol) * (1 + tol))"

section \<open>A concrete environment\<close>

text \<open>
  An environment for evaluating the handlers at concrete inputs. Vectors are natural
  numbers: the embedding of a text is the sum of its character codes. Every byte of a file is one chunk.
\<close>

definition demo_cols :: "col list" where
  "demo_cols =
     [\<lparr> col_id = ''Title'', vlen = 0, dtype = ''str'', gen_config = None \<rparr>,
      \<lparr> col_id = ''Title Embed'', vlen = 4, dtype = ''float32'',
        gen_config = Some [(''embedding_model'', ''ada'')] \<rparr>,
      \<lparr> col_id = ''Text'', vlen = 0, dtype = ''str'', gen_config = None \<rparr>,
      \<lparr> col_id = ''Text Embed'', vlen = 4, dtype = ''float32'',
        gen_config = Some [(''embedding_model'', ''ada'')] \<rparr>,
      \<lparr> col_id = ''Extra Embed'', vlen = 4, dtype = ''float32'',
        gen_config = Some [(''embedding_model'', ''ada'')] \<rparr>]"

definition demo_env :: "nat env" where
  "demo_env =
     \<lparr> config = default_config,
       count_rows = (\<lambda>table tid. if tid = ''big'' then Inr 2500 else Inr 3),
       gen_rows = (\<lambda>table request body rows_batch cols_batch keys.
                     case body of AddBody a \<Rightarrow> Inr (add_data a) | RegenBody r \<Rightarrow> Inr []),
       update_rows = (\<lambda>table tid where_clause vals. Inr ()),
       create_indexes = (\<lambda>table tid.
                     if tid = ''broken'' then Inl (OtherException ''index'') else Inr (tid \<noteq> ''fresh'')),
       compact_files = (\<lambda>table tid.
                     if tid = Some ''broken'' then Inl (OtherException ''compact'')
                     else Inr (tid \<noteq> Some ''fresh'')),
       cleanup_old_versions = (\<lambda>table tid days. Inr (tid \<noteq> Some ''recent'')),
       acquire_lock = (\<lambda>path. None),
       db_iterdir =
         [\<lparr> org_name = ''org'', org_is_dir = True,
            org_iterdir = [\<lparr> project_name = ''proj'', project_is_dir = True \<rparr>] \<rparr>],
       table_metas = (\<lambda>table.
                     case table of
                       KnowledgeTable _ _ \<Rightarrow>
                         Inr [\<lparr> meta_id = ''docs'', cols = demo_cols \<rparr>,
                              \<lparr> meta_id = ''fresh'', cols = demo_cols \<rparr>]
                     | ActionTable _ _ \<Rightarrow> Inr [\<lparr> meta_id = ''broken'', cols = [] \<rparr>]
                     | _ \<Rightarrow> Inr []),
       open_meta = (\<lambda>table tid. Inr \<lparr> meta_id = tid, cols = demo_cols \<rparr>),
       file_table_add_file = (\<lambda>table name content checksum.
                     Inr \<lparr> file_ID = ''file-1'', file_File_Name = name, file_Content = content \<rparr>),
       load_file = (\<lambda>name content.
                     Inr (map (\<lambda>w. \<lparr> chunk_text = [char_of (unat w)] \<rparr>) content)),
       split_chunks = (\<lambda>chunks chunk_size chunk_overlap. Inr chunks),
       DEFAULT_CHAT_MODEL = ''chat-model'',
       model_names = (\<lambda>prefer capabilities keys. Inr [prefer]),
       predict = (\<lambda>request model messages keys. Inr '' A title ''),
       EmbedGenConfig_model_validate = (\<lambda>g.
                     case g of
                       None \<Rightarrow> Inl (ValueError ''validation'')
                     | Some kv \<Rightarrow>
                         (case map_of kv ''embedding_model'' of
                            None \<Rightarrow> Inl (ValueError ''validation'')
                          | Some m \<Rightarrow> Inr m)),
       get_api_key = (\<lambda>model keys. openai_api_key keys),
       embed_documents = (\<lambda>embedder texts. Inr (map (\<lambda>t. sum_list (map of_char t)) texts)),
       np_asarray = (\<lambda>embeddings embed_dtype. Inr embeddings),
       np_divide_by_norm = (\<lambda>arr. Inr arr),
       RowAddRequest_reindex_default = None \<rparr>"

definition demo_request :: Request where
  "demo_request = \<lparr> req_id = ''r1'', org_id = ''org'', project_id = ''proj'' \<rparr>"

definition demo_keys :: api_keys where
  "demo_keys =
     \<lparr> openai_api_key = ''k'', anthropic_api_key = [], gemini_api_key = [],
       cohere_api_key = [], groq_api_key = [], together_api_key = [],
       jina_api_key = [], voyage_api_key = [] \<rparr>"

definition demo_info :: file_info where
  "demo_info = \<lparr> file_ID = ''file-1'', file_File_Name = ''f.txt'', file_Content = [97, 98, 99] \<rparr>"

definition demo_chunks :: "Chunk list" where
  "demo_chunks = [\<lparr> chunk_text = ''a'' \<rparr>, \<lparr> chunk_text = ''b'' \<rparr>, \<lparr> chunk_text = ''c'' \<rparr>]"

definition demo_table :: table where
  "demo_table = KnowledgeTable ''sqlite:///db/org/proj/knowledge.db'' ''db/org/proj/knowledge''"




section \<open>Predicates on effects\<close>

fun is_TryLock :: "'v event \<Rightarrow> bool" where
  "is_TryLock (TryLock _) = True"
| "is_TryLock _ = False"

fun is_CreateIndexes :: "'v event \<Rightarrow> bool" where
  "is_CreateIndexes (CreateIndexes _ _) = True"
| "is_CreateIndexes _ = False"

text \<open>A row insertion or an index build in place.\<close>

definition inserts_or_indexes :: "'v event \<Rightarrow> bool" where
  "inserts_or_indexes ev \<longleftrightarrow> is_GenRows ev \<or> is_CreateIndexes ev"

text \<open>
  The embedding of a list of texts for a column: what the loop over the columns computes
  for a column it embeds (model from the column's generation config, key for that model,
  \<^verbatim>\<open>_embed\<close> with the column's dtype).
\<close>

definition col_embedding :: "'v env \<Rightarrow> api_keys \<Rightarrow> col \<Rightarrow> string list \<Rightarrow> error + 'v list" where
  "col_embedding env keys c texts =
     (case EmbedGenConfig_model_validate env (gen_config c) of
        Inl e \<Rightarrow> Inl e
      | Inr embedding_model \<Rightarrow>
          embed env \<lparr> embedder_name = embedding_model,
                      api_key = get_api_key env embedding_model keys \<rparr> texts (dtype c))"

text \<open>An embedding-capable column (vector length not 0) with the given id.\<close>

definition is_role :: "string \<Rightarrow> col \<Rightarrow> bool" where
  "is_role name c \<longleftrightarrow> vlen c \<noteq> 0 \<and> col_id c = name"

text \<open>The embedder's contract: one vector for each text it is given.\<close>

definition one_vector_per_text :: "'v env \<Rightarrow> bool" where
  "one_vector_per_text env \<longleftrightarrow>
     (\<forall>embedder texts embed_dtype vs.
        embed env embedder texts embed_dtype = Inr vs \<longrightarrow> length vs = length texts)"


text \<open>An index build on a file table.\<close>

fun indexes_file_table :: "'v event \<Rightarrow> bool" where
  "indexes_file_table (CreateIndexes table _) = is_file_table table"
| "indexes_file_table _ = False"

text \<open>A yielded tuple carries a session exactly when its table is not a file table.\<close>

fun session_iff_gen_table :: "item \<Rightarrow> bool" where
  "session_iff_gen_table (session, table, meta, table_path) =
     (session = None \<longleftrightarrow> is_file_table table)"

fun total_count :: "counters \<Rightarrow> nat" where
  "total_count (num_ok, num_skipped, num_failed) = num_ok + num_skipped + num_failed"

section \<open>Checksum: properties\<close>

lemma feed_blocks_drop:
  assumes "streaming_hasher H" and "0 < block_size"
  shows "feed_blocks H block_size content i hasher = hasher_update H hasher (drop i content)"
  using assms
proof (induction H block_size content i hasher rule: feed_blocks.induct)
  case (1 H block_size content i hasher)
  show ?case
  proof (cases "length content \<le> i")
    case True
    with "1.prems" show ?thesis
      by (subst feed_blocks.simps) (simp add: streaming_hasher_def)
  next
    case False
    with "1.prems" have ih:
      "feed_blocks H block_size content (i + block_size)
         (hasher_update H hasher (take block_size (drop i content))) =
       hasher_update H (hasher_update H hasher (take block_size (drop i content)))
         (drop (i + block_size) content)"
      using "1.IH" by simp
    have split: "take block_size (drop i content) @ drop (i + block_size) content = drop i content"
      by (metis add.commute append_take_drop_id drop_drop)
    from "1.prems" have join:
      "hasher_update H (hasher_update H hasher (take block_size (drop i content)))
         (drop (i + block_size) content) = hasher_update H hasher (drop i content)"
      unfolding streaming_hasher_def using split by metis
    from False "1.prems" show ?thesis
      by (subst feed_blocks.simps) (simp add: ih join)
  qed
qed

lemma list_hasher_streaming: "streaming_hasher list_hasher"
  by (simp add: streaming_hasher_def list_hasher_def)

text \<open>
  C8. The checksum depends on the byte content only: for a hasher that honours the
  streaming contract and every positive block size, feeding the content block by block
  gives the digest of one update with the whole content (also for the empty content);
  so any two block sizes give the same digest, and so does the handler's 1024.
\<close>

theorem checksum_block_size_independent:
  assumes "streaming_hasher H" and "0 < b1" and "0 < b2"
  shows "checksum_blocks H b1 content = Inr (hexdigest H (hasher_update H (new_hasher H) content))
       \<and> checksum_blocks H b1 content = checksum_blocks H b2 content
       \<and> upload_checksum H content = checksum_blocks H b1 content"
  using assms by (simp add: checksum_blocks_def upload_checksum_def feed_blocks_drop)

theorem checksum_block_size_independent_witness:
  "streaming_hasher list_hasher \<and> (0::nat) < 2 \<and> (0::nat) < 3
   \<and> checksum_blocks list_hasher 2 [1, 2, 3, 4, 5] =
       Inr (hexdigest list_hasher (hasher_update list_hasher (new_hasher list_hasher) [1, 2, 3, 4, 5]))
   \<and> checksum_blocks list_hasher 2 [1, 2, 3, 4, 5] = checksum_blocks list_hasher 3 [1, 2, 3, 4, 5]
   \<and> upload_checksum list_hasher [1, 2, 3, 4, 5] = checksum_blocks list_hasher 2 [1, 2, 3, 4, 5]"
proof -
  have b1: "(0::nat) < 2" and b2: "(0::nat) < 3" by simp_all
  note t = checksum_block_size_independent [OF list_hasher_streaming b1 b2, of "[1, 2, 3, 4, 5]"]
  note t1 = t [THEN conjunct1] and t2 = t [THEN conjunct2, THEN conjunct1]
    and t3 = t [THEN conjunct2, THEN conjunct2]
  show ?thesis
    by (intro conjI) (fact list_hasher_streaming b1 b2 t1 t2 t3)+
qed

section \<open>Steps: basic facts\<close>

lemma fst_bind:
  "fst (bind m f) = (case snd m of Inl e \<Rightarrow> fst m | Inr x \<Rightarrow> fst m @ fst (f x))"
  by (cases m) (auto simp: bind_def split: sum.splits prod.splits)

lemma snd_bind:
  "snd (bind m f) = (case snd m of Inl e \<Rightarrow> Inl e | Inr x \<Rightarrow> snd (f x))"
  by (cases m) (auto simp: bind_def split: sum.splits prod.splits)

lemma snd_reraise [simp]: "snd (reraise msg m) = snd m"
  by (cases m) (auto simp: reraise_def split: sum.splits)

lemma add_tasks_reraise [simp]:
  "filter is_AddTask (fst (reraise msg m)) = filter is_AddTask (fst m)"
  by (cases m) (auto simp: reraise_def split: sum.splits)

lemma add_tasks_run_executor [simp]:
  "filter is_AddTask (fst (run_executor env table request body stream keys)) = []"
  by (simp add: run_executor_def split: sum.splits)

lemma filter_empty_iff: "filter P xs = [] \<longleftrightarrow> (\<forall>x \<in> set xs. \<not> P x)"
  by (induction xs) auto

section \<open>The reindex trigger of the row handlers\<close>

text \<open>
  C1. In \<^verbatim>\<open>add_rows\<close> and in \<^verbatim>\<open>regen_rows\<close>: when \<^verbatim>\<open>body.reindex\<close> is true, or
  is unset and the table's row count is at most \<^verbatim>\<open>owl_immediate_reindex_max_rows\<close>
  (2000 by default), exactly one \<^verbatim>\<open>create_indexes\<close> task for the table is handed to the
  background tasks; when it is false, or unset with a row count above the threshold,
  none is.
\<close>

theorem reindex_trigger_policy:
  assumes "table = get_gen_table (config env) (org_id request) (project_id request) tt"
    and "T = owl_immediate_reindex_max_rows (config env)"
  shows
    "(add_reindex a = Some True
        \<or> add_reindex a = None \<and> (\<exists>n. count_rows env table (add_table_id a) = Inr n \<and> n \<le> T)
      \<longrightarrow> filter is_AddTask (fst (add_rows env request tt a keys)) = [AddTask table (add_table_id a)])
   \<and> (add_reindex a = Some False
        \<or> add_reindex a = None \<and> (\<exists>n. count_rows env table (add_table_id a) = Inr n \<and> T < n)
      \<longrightarrow> filter is_AddTask (fst (add_rows env request tt a keys)) = [])
   \<and> (regen_reindex r = Some True
        \<or> regen_reindex r = None \<and> (\<exists>n. count_rows env table (regen_table_id r) = Inr n \<and> n \<le> T)
      \<longrightarrow> filter is_AddTask (fst (regen_rows env request tt r keys)) = [AddTask table (regen_table_id r)])
   \<and> (regen_reindex r = Some False
        \<or> regen_reindex r = None \<and> (\<exists>n. count_rows env table (regen_table_id r) = Inr n \<and> T < n)
      \<longrightarrow> filter is_AddTask (fst (regen_rows env request tt r keys)) = [])
   \<and> owl_immediate_reindex_max_rows default_config = 2000"
  using assms
  by (auto simp: add_rows_def regen_rows_def fst_bind reindex_wanted_def default_config_def Let_def)

theorem reindex_trigger_policy_witness:
  "filter is_AddTask (fst (add_rows demo_env demo_request knowledge
      \<lparr> add_table_id = ''docs'', add_data = [], add_stream = True, add_reindex = None \<rparr> demo_keys))
     = [AddTask (KnowledgeTable ''sqlite:///db/org/proj/knowledge.db'' ''db/org/proj/knowledge'') ''docs'']
   \<and> filter is_AddTask (fst (regen_rows demo_env demo_request knowledge
      \<lparr> regen_table_id = ''docs'', regen_row_ids = [''1''], regen_stream = False,
        regen_reindex = Some False \<rparr> demo_keys)) = []
   \<and> filter is_AddTask (fst (add_rows demo_env demo_request knowledge
      \<lparr> add_table_id = ''big'', add_data = [], add_stream = True, add_reindex = None \<rparr> demo_keys)) = []
   \<and> filter is_AddTask (fst (regen_rows demo_env demo_request knowledge
      \<lparr> regen_table_id = ''big'', regen_row_ids = [''1''], regen_stream = False,
        regen_reindex = Some True \<rparr> demo_keys))
     = [AddTask (KnowledgeTable ''sqlite:///db/org/proj/knowledge.db'' ''db/org/proj/knowledge'') ''big'']"
proof -
  let ?table = "get_gen_table (config demo_env) (org_id demo_request) (project_id demo_request) knowledge"
  let ?a1 = "\<lparr> add_table_id = ''docs'', add_data = [] :: nat row list, add_stream = True,
               add_reindex = None \<rparr>"
  let ?a2 = "\<lparr> add_table_id = ''big'', add_data = [] :: nat row list, add_stream = True,
               add_reindex = None \<rparr>"
  let ?r1 = "\<lparr> regen_table_id = ''docs'', regen_row_ids = [''1''], regen_stream = False,
               regen_reindex = Some False \<rparr>"
  let ?r2 = "\<lparr> regen_table_id = ''big'', regen_row_ids = [''1''], regen_stream = False,
               regen_reindex = Some True \<rparr>"
  have table: "?table = KnowledgeTable ''sqlite:///db/org/proj/knowledge.db'' ''db/org/proj/knowledge''"
    by (simp add: get_gen_table_def demo_env_def demo_request_def default_config_def)
  have small: "add_reindex ?a1 = None
      \<and> (\<exists>n. count_rows demo_env ?table (add_table_id ?a1) = Inr n
            \<and> n \<le> owl_immediate_reindex_max_rows (config demo_env))"
    by (simp add: demo_env_def default_config_def)
  have big: "add_reindex ?a2 = None
      \<and> (\<exists>n. count_rows demo_env ?table (add_table_id ?a2) = Inr n
            \<and> owl_immediate_reindex_max_rows (config demo_env) < n)"
    by (simp add: demo_env_def default_config_def)
  have no: "regen_reindex ?r1 = Some False" and yes: "regen_reindex ?r2 = Some True"
    by simp_all
  note t1 = reindex_trigger_policy [OF refl refl, where env = demo_env and request = demo_request
      and tt = knowledge and a = ?a1 and r = ?r1 and keys = demo_keys]
  note t2 = reindex_trigger_policy [OF refl refl, where env = demo_env and request = demo_request
      and tt = knowledge and a = ?a2 and r = ?r2 and keys = demo_keys]
  from t1 small no t2 big yes show ?thesis
    unfolding table by simp
qed

section \<open>Updates of the fixed columns of a knowledge table\<close>

lemma lower_names:
  "lower ''Text Embed'' = ''text embed''" "lower ''Title Embed'' = ''title embed''"
  by code_simp+

text \<open>
  C7. An \<^verbatim>\<open>update_row\<close> on a knowledge table whose data has a key equal to
  \<^verbatim>\<open>Text Embed\<close> or \<^verbatim>\<open>Title Embed\<close> up to letter case raises
  \<^verbatim>\<open>TableSchemaFixedError\<close> with no effect at all, so \<^verbatim>\<open>update_rows\<close> is never called;
  a request with no such key calls \<^verbatim>\<open>update_rows\<close> once, and returns
  \<^verbatim>\<open>OkResponse\<close> when the storage engine raises nothing.
\<close>

theorem update_row_fixed_columns:
  assumes "table = get_gen_table (config env) (org_id request) (project_id request) knowledge"
    and "where_clause = ''`ID` = '' @ [CHR 0x27] @ upd_row_id body @ [CHR 0x27]"
  shows
    "((\<exists>k \<in> set (map fst (upd_data body)).
          lower k = lower ''Text Embed'' \<or> lower k = lower ''Title Embed'')
       \<longrightarrow> update_row env request knowledge body =
             ([], Inl (TableSchemaFixedError ''Cannot update 'Text Embed' or 'Title Embed'.''))
           \<and> filter is_UpdateRows (fst (update_row env request knowledge body)) = [])
   \<and> (\<not> (\<exists>k \<in> set (map fst (upd_data body)).
          lower k = lower ''Text Embed'' \<or> lower k = lower ''Title Embed'')
       \<longrightarrow> filter is_UpdateRows (fst (update_row env request knowledge body)) =
             [UpdateRows table (upd_table_id body) where_clause (upd_data body)]
           \<and> (\<forall>wanted. update_rows env table (upd_table_id body) where_clause (upd_data body) = Inr ()
                \<and> reindex_wanted env table (upd_table_id body) (upd_reindex body) = Inr wanted
               \<longrightarrow> update_row env request knowledge body =
                     (UpdateRows table (upd_table_id body) where_clause (upd_data body)
                        # (if wanted then [AddTask table (upd_table_id body)] else []),
                      Inr OkResponse)))"
proof (intro conjI impI)
  assume "\<exists>k \<in> set (map fst (upd_data body)).
          lower k = lower ''Text Embed'' \<or> lower k = lower ''Title Embed''"
  then have "''text embed'' \<in> set (map lower (map fst (upd_data body)))
           \<or> ''title embed'' \<in> set (map lower (map fst (upd_data body)))"
    unfolding lower_names by (force simp: image_iff)
  then show rejected: "update_row env request knowledge body =
             ([], Inl (TableSchemaFixedError ''Cannot update 'Text Embed' or 'Title Embed'.''))"
    by (simp add: update_row_def reraise_def Let_def)
  then show "filter is_UpdateRows (fst (update_row env request knowledge body)) = []"
    by simp
next
  assume "\<not> (\<exists>k \<in> set (map fst (upd_data body)).
          lower k = lower ''Text Embed'' \<or> lower k = lower ''Title Embed'')"
  then have n: "\<not> (''text embed'' \<in> set (map lower (map fst (upd_data body)))
           \<or> ''title embed'' \<in> set (map lower (map fst (upd_data body))))"
    unfolding lower_names by (force simp: image_iff)
  show "filter is_UpdateRows (fst (update_row env request knowledge body)) =
             [UpdateRows table (upd_table_id body) where_clause (upd_data body)]"
    using n assms
    by (auto simp: update_row_def reraise_def bind_def Let_def split: sum.splits prod.splits)
  show "\<forall>wanted. update_rows env table (upd_table_id body) where_clause (upd_data body) = Inr ()
                \<and> reindex_wanted env table (upd_table_id body) (upd_reindex body) = Inr wanted
               \<longrightarrow> update_row env request knowledge body =
                     (UpdateRows table (upd_table_id body) where_clause (upd_data body)
                        # (if wanted then [AddTask table (upd_table_id body)] else []),
                      Inr OkResponse)"
    using n assms
    by (auto simp: update_row_def reraise_def bind_def Let_def split: sum.splits prod.splits)
qed

theorem update_row_fixed_columns_witness:
  "update_row demo_env demo_request knowledge
      \<lparr> upd_table_id = ''docs'', upd_row_id = ''7'', upd_data = [(''TEXT embed'', Num 1)],
        upd_reindex = None \<rparr>
     = ([], Inl (TableSchemaFixedError ''Cannot update 'Text Embed' or 'Title Embed'.''))
   \<and> update_row demo_env demo_request knowledge
      \<lparr> upd_table_id = ''docs'', upd_row_id = ''7'', upd_data = [(''Text'', Str ''new text'')],
        upd_reindex = Some False \<rparr>
     = ([UpdateRows (KnowledgeTable ''sqlite:///db/org/proj/knowledge.db'' ''db/org/proj/knowledge'')
           ''docs'' (''`ID` = '' @ [CHR 0x27] @ ''7'' @ [CHR 0x27]) [(''Text'', Str ''new text'')]],
        Inr OkResponse)"
proof -
  let ?table = "get_gen_table (config demo_env) (org_id demo_request) (project_id demo_request) knowledge"
  let ?b1 = "\<lparr> upd_table_id = ''docs'', upd_row_id = ''7'',
               upd_data = [(''TEXT embed'', Num 1 :: nat cell)], upd_reindex = None \<rparr>"
  let ?b2 = "\<lparr> upd_table_id = ''docs'', upd_row_id = ''7'',
               upd_data = [(''Text'', Str ''new text'' :: nat cell)], upd_reindex = Some False \<rparr>"
  have table: "?table = KnowledgeTable ''sqlite:///db/org/proj/knowledge.db'' ''db/org/proj/knowledge''"
    by (simp add: get_gen_table_def demo_env_def demo_request_def default_config_def)
  have low: "lower ''TEXT embed'' = ''text embed''" "lower ''Text'' = ''text''"
    by code_simp+
  have touched: "\<exists>k \<in> set (map fst (upd_data ?b1)).
      lower k = lower ''Text Embed'' \<or> lower k = lower ''Title Embed''"
    by (simp add: low lower_names)
  have untouched: "\<not> (\<exists>k \<in> set (map fst (upd_data ?b2)).
      lower k = lower ''Text Embed'' \<or> lower k = lower ''Title Embed'')"
    by (simp add: low lower_names)
  have stored: "update_rows demo_env ?table (upd_table_id ?b2)
        (''`ID` = '' @ [CHR 0x27] @ upd_row_id ?b2 @ [CHR 0x27]) (upd_data ?b2) = Inr ()
      \<and> reindex_wanted demo_env ?table (upd_table_id ?b2) (upd_reindex ?b2) = Inr False"
    by (simp add: demo_env_def reindex_wanted_def)
  note t1 = update_row_fixed_columns [OF refl refl, where env = demo_env and request = demo_request
      and body = ?b1]
  note t2 = update_row_fixed_columns [OF refl refl, where env = demo_env and request = demo_request
      and body = ?b2]
  from t1 touched have c1: "update_row demo_env demo_request knowledge ?b1 =
      ([], Inl (TableSchemaFixedError ''Cannot update 'Text Embed' or 'Title Embed'.''))"
    by blast
  from t2 untouched stored have c2: "update_row demo_env demo_request knowledge ?b2 =
      (UpdateRows ?table (upd_table_id ?b2) (''`ID` = '' @ [CHR 0x27] @ upd_row_id ?b2 @ [CHR 0x27])
         (upd_data ?b2) # (if False then [AddTask ?table (upd_table_id ?b2)] else []), Inr OkResponse)"
    by blast
  from c1 c2 show ?thesis unfolding table by simp
qed

section \<open>Periodic optimization\<close>

lemma optimize_tables_Cons:
  "optimize_tables env (it # items) counts =
     (fst (optimize_table env it)
        @ fst (optimize_tables env items (count_outcome (snd (optimize_table env it)) counts)),
      snd (optimize_tables env items (count_outcome (snd (optimize_table env it)) counts)))"
  by (simp split: prod.splits del: optimize_table.simps)

lemma optimize_tables_events:
  "fst (optimize_tables env items counts) = concat (map (\<lambda>it. fst (optimize_table env it)) items)"
  by (induction items arbitrary: counts) (simp_all add: optimize_tables_Cons del: optimize_tables.simps(2))

lemma optimize_tables_counts:
  "snd (optimize_tables env items counts) =
     fold (\<lambda>it. count_outcome (snd (optimize_table env it))) items counts"
  by (induction items arbitrary: counts) (simp_all add: optimize_tables_Cons del: optimize_tables.simps(2))

lemma total_count_outcome: "total_count (count_outcome r c) = Suc (total_count c)"
  by (cases r; cases c) auto

lemma optimize_tables_total:
  "total_count (snd (optimize_tables env items counts)) = total_count counts + length items"
  by (induction items arbitrary: counts)
    (simp_all add: optimize_tables_Cons total_count_outcome del: optimize_tables.simps(2))

text \<open>
  C5, as the code has it. For every table the optimize job visits, compaction is called;
  pruning of the versions older than \<^verbatim>\<open>owl_remove_version_older_than_days\<close> (7 by
  default) is called exactly when compaction returned true. The outcome is \<open>ok\<close> iff
  both returned true, \<open>skipped\<close> iff compaction returned false or pruning did, and
  \<open>failed\<close> iff one of them raised. Whatever the outcome, the loop goes on to the
  tables after it, and every table visited is counted once.
\<close>

theorem optimize_table_outcome:
  assumes "tid = (case meta of None \<Rightarrow> None | Some m \<Rightarrow> Some (meta_id m))"
    and "days = owl_remove_version_older_than_days (config env)"
    and "it = (session, table, meta, table_path)"
  shows
    "CompactFiles table tid \<in> set (fst (optimize_table env it))
   \<and> (CleanupOldVersions table tid days \<in> set (fst (optimize_table env it))
        \<longleftrightarrow> compact_files env table tid = Inr True)
   \<and> (snd (optimize_table env it) = ok
        \<longleftrightarrow> compact_files env table tid = Inr True \<and> cleanup_old_versions env table tid days = Inr True)
   \<and> (snd (optimize_table env it) = skipped
        \<longleftrightarrow> compact_files env table tid = Inr False
            \<or> compact_files env table tid = Inr True \<and> cleanup_old_versions env table tid days = Inr False)
   \<and> (snd (optimize_table env it) = failed
        \<longleftrightarrow> (\<exists>e. compact_files env table tid = Inl e)
            \<or> compact_files env table tid = Inr True \<and> (\<exists>e. cleanup_old_versions env table tid days = Inl e))
   \<and> fst (optimize_tables env (before @ it # after) (0, 0, 0)) =
        fst (optimize_tables env before (0, 0, 0)) @ fst (optimize_table env it)
          @ fst (optimize_tables env after (0, 0, 0))
   \<and> (\<forall>num_ok num_skipped num_failed.
         snd (optimize_tables env (before @ it # after) (0, 0, 0)) = (num_ok, num_skipped, num_failed)
         \<longrightarrow> num_ok + num_skipped + num_failed = length before + 1 + length after)
   \<and> owl_remove_version_older_than_days default_config = 7"
proof -
  have 1: "CompactFiles table tid \<in> set (fst (optimize_table env it))"
    using assms by (auto simp: compact_and_cleanup_def bind_def split: sum.splits prod.splits)
  have 2: "CleanupOldVersions table tid days \<in> set (fst (optimize_table env it))
        \<longleftrightarrow> compact_files env table tid = Inr True"
    using assms by (auto simp: compact_and_cleanup_def bind_def split: sum.splits prod.splits)
  have 3: "snd (optimize_table env it) = ok
        \<longleftrightarrow> compact_files env table tid = Inr True \<and> cleanup_old_versions env table tid days = Inr True"
    using assms by (auto simp: compact_and_cleanup_def bind_def split: sum.splits prod.splits)
  have 4: "snd (optimize_table env it) = skipped
        \<longleftrightarrow> compact_files env table tid = Inr False
            \<or> compact_files env table tid = Inr True \<and> cleanup_old_versions env table tid days = Inr False"
    using assms by (auto simp: compact_and_cleanup_def bind_def split: sum.splits prod.splits)
  have 5: "snd (optimize_table env it) = failed
        \<longleftrightarrow> (\<exists>e. compact_files env table tid = Inl e)
            \<or> compact_files env table tid = Inr True \<and> (\<exists>e. cleanup_old_versions env table tid days = Inl e)"
    using assms by (auto simp: compact_and_cleanup_def bind_def split: sum.splits prod.splits)
  have 6: "fst (optimize_tables env (before @ it # after) (0, 0, 0)) =
        fst (optimize_tables env before (0, 0, 0)) @ fst (optimize_table env it)
          @ fst (optimize_tables env after (0, 0, 0))"
    by (simp add: optimize_tables_events)
  have 7: "\<forall>num_ok num_skipped num_failed.
         snd (optimize_tables env (before @ it # after) (0, 0, 0)) = (num_ok, num_skipped, num_failed)
         \<longrightarrow> num_ok + num_skipped + num_failed = length before + 1 + length after"
    using optimize_tables_total [of env "before @ it # after" "(0, 0, 0)"] by auto
  have 8: "owl_remove_version_older_than_days default_config = 7"
    by (simp add: default_config_def)
  from 1 2 3 4 5 6 7 8 show ?thesis by blast
qed

text \<open>
  That both sub-steps are performed for every table visited fails where compaction
  returns false: the pruning call is the right operand of
  \<^verbatim>\<open>and\<close> and is not evaluated.
\<close>

theorem optimize_skips_cleanup_counterexample:
  "compact_files demo_env (KnowledgeTable ''s'' ''l'') (Some ''fresh'') = Inr False
   \<and> optimize_table demo_env
       (Some (Session (KnowledgeTable ''s'' ''l'')), KnowledgeTable ''s'' ''l'',
        Some \<lparr> meta_id = ''fresh'', cols = [] \<rparr>, ''db/org/proj/knowledge/fresh'')
     = ([CompactFiles (KnowledgeTable ''s'' ''l'') (Some ''fresh'')], skipped)"
  by (simp add: demo_env_def compact_and_cleanup_def bind_def)

theorem optimize_table_outcome_witness:
  "CompactFiles (KnowledgeTable ''s'' ''l'') (Some ''docs'')
     \<in> set (fst (optimize_table demo_env
          (Some (Session (KnowledgeTable ''s'' ''l'')), KnowledgeTable ''s'' ''l'',
           Some \<lparr> meta_id = ''docs'', cols = [] \<rparr>, ''db/org/proj/knowledge/docs'')))
   \<and> CleanupOldVersions (KnowledgeTable ''s'' ''l'') (Some ''docs'') 7
     \<in> set (fst (optimize_table demo_env
          (Some (Session (KnowledgeTable ''s'' ''l'')), KnowledgeTable ''s'' ''l'',
           Some \<lparr> meta_id = ''docs'', cols = [] \<rparr>, ''db/org/proj/knowledge/docs'')))
   \<and> snd (optimize_table demo_env
          (Some (Session (KnowledgeTable ''s'' ''l'')), KnowledgeTable ''s'' ''l'',
           Some \<lparr> meta_id = ''docs'', cols = [] \<rparr>, ''db/org/proj/knowledge/docs'')) = ok
   \<and> snd (optimize_tables demo_env
          [(Some (Session (KnowledgeTable ''s'' ''l'')), KnowledgeTable ''s'' ''l'',
            Some \<lparr> meta_id = ''docs'', cols = [] \<rparr>, ''db/org/proj/knowledge/docs''),
           (Some (Session (KnowledgeTable ''s'' ''l'')), KnowledgeTable ''s'' ''l'',
            Some \<lparr> meta_id = ''fresh'', cols = [] \<rparr>, ''db/org/proj/knowledge/fresh'')]
          (0, 0, 0)) = (1, 1, 0)
   \<and> (1::nat) + 1 + 0 = length ([] :: item list) + 1 + length [''fresh'']"
proof -
  let ?T = "KnowledgeTable ''s'' ''l''"
  let ?docs = "(Some (Session ?T), ?T, Some \<lparr> meta_id = ''docs'', cols = [] \<rparr>,
                ''db/org/proj/knowledge/docs'')"
  let ?fresh = "(Some (Session ?T), ?T, Some \<lparr> meta_id = ''fresh'', cols = [] \<rparr>,
                 ''db/org/proj/knowledge/fresh'')"
  have tid: "Some ''docs'' = (case Some \<lparr> meta_id = ''docs'', cols = [] \<rparr> of
                None \<Rightarrow> None | Some m \<Rightarrow> Some (meta_id m))"
    by simp
  have days: "7 = owl_remove_version_older_than_days (config demo_env)"
    by (simp add: demo_env_def default_config_def)
  note t = optimize_table_outcome [OF tid days refl, where before = "[]" and after = "[?fresh]"
      and session = "Some (Session ?T)" and table = ?T and table_path = "''db/org/proj/knowledge/docs''"]
  have compacted: "compact_files demo_env ?T (Some ''docs'') = Inr True"
    and pruned: "cleanup_old_versions demo_env ?T (Some ''docs'') 7 = Inr True"
    by (simp_all add: demo_env_def)
  have counted: "snd (optimize_tables demo_env ([] @ ?docs # [?fresh]) (0, 0, 0)) = (1, 1, 0)"
    by (simp add: demo_env_def compact_and_cleanup_def bind_def default_config_def)
  from t compacted pruned have a: "CompactFiles ?T (Some ''docs'') \<in> set (fst (optimize_table demo_env ?docs))"
    and b: "CleanupOldVersions ?T (Some ''docs'') 7 \<in> set (fst (optimize_table demo_env ?docs))"
    and c: "snd (optimize_table demo_env ?docs) = ok"
    by blast+
  from t counted have d: "(1::nat) + 1 + 0 = length ([] :: item list) + 1 + length [?fresh]"
    by blast
  from a b c d counted show ?thesis by simp
qed

section \<open>The tables the generator yields\<close>

lemma get_gen_table_not_file [simp]: "\<not> is_file_table (get_gen_table cfg org project tt)"
  by (simp add: get_gen_table_def Let_def)

lemma iter_metas_items:
  "\<not> is_file_table table \<Longrightarrow> it \<in> set (fst (iter_metas env table dir offset n)) \<Longrightarrow> session_iff_gen_table it"
proof (induction env table dir offset n arbitrary: it rule: iter_metas.induct)
  case (1 env table dir offset n_total)
  show ?case
  proof (cases "offset < n_total")
    case False
    with "1.prems" show ?thesis by (simp add: iter_metas.simps)
  next
    case True
    show ?thesis
    proof (cases "list_meta env table offset batch_size")
      case (Inl e)
      with True "1.prems" show ?thesis by (simp add: iter_metas.simps)
    next
      case (Inr page)
      obtain metas n' where page: "page = (metas, n')" by (cases page)
      obtain rest err where rec: "iter_metas env table dir (offset + batch_size) n' = (rest, err)"
        by (cases "iter_metas env table dir (offset + batch_size) n'")
      from True Inr page rec "1.prems"(2)
      have "it \<in> set (map (\<lambda>meta. (Some (Session table), table, Some meta, dir @ ''/'' @ meta_id meta)) metas)
            \<or> it \<in> set rest"
        by (subst (asm) iter_metas.simps) auto
      then show ?thesis
      proof
        assume "it \<in> set (map (\<lambda>meta. (Some (Session table), table, Some meta, dir @ ''/'' @ meta_id meta)) metas)"
        with "1.prems"(1) show ?thesis by auto
      next
        assume "it \<in> set rest"
        with rec have "it \<in> set (fst (iter_metas env table dir (offset + batch_size) n'))" by simp
        with "1.IH" [OF True Inr page [symmetric] "1.prems"(1)] show ?thesis .
      qed
    qed
  qed
qed

lemma iter_table_types_items:
  "it \<in> set (fst (iter_table_types env org project tts)) \<Longrightarrow> session_iff_gen_table it"
proof (induction tts arbitrary: it)
  case Nil
  then show ?case by simp
next
  case (Cons tt tts)
  let ?table = "get_gen_table (config env) org project tt"
  let ?dir = "(owl_db_dir (config env) @ ''/'' @ org @ ''/'' @ project) @ ''/'' @ table_type_value tt"
  obtain items err where m: "iter_metas env ?table ?dir 0 1 = (items, err)"
    by (cases "iter_metas env ?table ?dir 0 1")
  obtain rest err' where r: "iter_table_types env org project tts = (rest, err')"
    by (cases "iter_table_types env org project tts")
  from Cons.prems m r have "it \<in> set items \<or> it \<in> set rest"
    by (cases err) (auto simp: Let_def)
  then show ?case
  proof
    assume "it \<in> set items"
    with m have "it \<in> set (fst (iter_metas env ?table ?dir 0 1))" by simp
    then show ?thesis using iter_metas_items get_gen_table_not_file by blast
  next
    assume "it \<in> set rest"
    with r Cons.IH show ?thesis by simp
  qed
qed

lemma iter_projects_items:
  "it \<in> set (fst (iter_projects env org ps)) \<Longrightarrow> session_iff_gen_table it"
proof (induction ps arbitrary: it)
  case Nil
  then show ?case by simp
next
  case (Cons p ps)
  show ?case
  proof (cases "project_is_dir p")
    case False
    with Cons show ?thesis by simp
  next
    case True
    obtain items err where m:
      "iter_table_types env org (project_name p) [action, knowledge, chat] = (items, err)"
      by (cases "iter_table_types env org (project_name p) [action, knowledge, chat]")
    obtain rest err' where r: "iter_projects env org ps = (rest, err')"
      by (cases "iter_projects env org ps")
    let ?file = "(None, get_file_table (config env) org (project_name p), None,
                  owl_db_dir (config env) @ ''/'' @ org @ ''/'' @ project_name p @ ''/file/file'')"
    from Cons.prems True m r have "it \<in> set items \<or> it = ?file \<or> it \<in> set rest"
      by (cases err) (auto simp del: iter_table_types.simps)
    then consider "it \<in> set items" | "it = ?file" | "it \<in> set rest" by blast
    then show ?thesis
    proof cases
      case 1
      with m have "it \<in> set (fst (iter_table_types env org (project_name p) [action, knowledge, chat]))"
        by simp
      then show ?thesis by (rule iter_table_types_items)
    next
      case 2
      then show ?thesis by (simp add: get_file_table_def)
    next
      case 3
      with r Cons.IH show ?thesis by simp
    qed
  qed
qed

lemma iter_orgs_items:
  "it \<in> set (fst (iter_orgs env ds)) \<Longrightarrow> session_iff_gen_table it"
proof (induction ds arbitrary: it)
  case Nil
  then show ?case by simp
next
  case (Cons d ds)
  show ?case
  proof (cases "org_is_dir d")
    case False
    with Cons show ?thesis by simp
  next
    case True
    obtain items err where m: "iter_projects env (org_name d) (org_iterdir d) = (items, err)"
      by (cases "iter_projects env (org_name d) (org_iterdir d)")
    obtain rest err' where r: "iter_orgs env ds = (rest, err')"
      by (cases "iter_orgs env ds")
    from Cons.prems True m r have "it \<in> set items \<or> it \<in> set rest"
      by (cases err) auto
    then show ?thesis
    proof
      assume "it \<in> set items"
      with m have "it \<in> set (fst (iter_projects env (org_name d) (org_iterdir d)))" by simp
      then show ?thesis by (rule iter_projects_items)
    next
      assume "it \<in> set rest"
      with r Cons.IH show ?thesis by simp
    qed
  qed
qed

lemma iter_all_tables_items:
  "it \<in> set (fst (iter_all_tables env)) \<Longrightarrow> session_iff_gen_table it"
  unfolding iter_all_tables_def by (rule iter_orgs_items)

lemma reindex_table_events:
  "session_iff_gen_table it \<Longrightarrow> ev \<in> set (fst (reindex_table env it))
     \<Longrightarrow> \<not> indexes_file_table ev \<and> \<not> is_TryLock ev"
  by (cases "(env, it)" rule: reindex_table.cases) (auto split: sum.splits)

lemma reindex_tables_Cons:
  "reindex_tables env (it # items) counts =
     (fst (reindex_table env it)
        @ fst (reindex_tables env items
                 (case snd (reindex_table env it) of None \<Rightarrow> counts | Some r \<Rightarrow> count_outcome r counts)),
      snd (reindex_tables env items
             (case snd (reindex_table env it) of None \<Rightarrow> counts | Some r \<Rightarrow> count_outcome r counts)))"
  by (simp split: prod.splits)

lemma reindex_tables_events:
  "fst (reindex_tables env items counts) = concat (map (\<lambda>it. fst (reindex_table env it)) items)"
  by (induction items arbitrary: counts)
    (simp_all add: reindex_tables_Cons del: reindex_tables.simps(2))

lemma reindex_tables_file_table:
  assumes "\<forall>it \<in> set items. session_iff_gen_table it"
    and "ev \<in> set (fst (reindex_tables env items counts))"
  shows "\<not> indexes_file_table ev \<and> \<not> is_TryLock ev"
  using assms reindex_table_events unfolding reindex_tables_events by fastforce

lemma optimize_table_no_lock:
  "ev \<in> set (fst (optimize_table env it)) \<Longrightarrow> \<not> is_TryLock ev"
  by (cases it) (auto simp: compact_and_cleanup_def bind_def split: sum.splits prod.splits if_splits)

lemma tick_failed_no_lock [simp]: "filter is_TryLock (tick_failed job e) = []"
  by (simp add: tick_failed_def)

lemma reindex_tables_no_lock:
  "filter is_TryLock (fst (reindex_tables env (fst (iter_all_tables env)) counts)) = []"
  unfolding filter_empty_iff using reindex_tables_file_table iter_all_tables_items by blast

lemma optimize_tables_no_lock:
  "filter is_TryLock (fst (optimize_tables env items counts)) = []"
  unfolding filter_empty_iff optimize_tables_events using optimize_table_no_lock by fastforce

lemma periodic_reindex_acquired:
  "acquire_lock env (owl_db_dir (config env) @ ''/periodic_reindex.lock'') = None \<Longrightarrow>
   \<exists>tl. periodic_reindex env =
     [TryLock (owl_db_dir (config env) @ ''/periodic_reindex.lock''),
      Log INFO ''Periodic Lance re-indexing started.'' []]
     @ fst (reindex_tables env (fst (iter_all_tables env)) (0, 0, 0))
     @ ReleaseLock (owl_db_dir (config env) @ ''/periodic_reindex.lock'') # tl
     \<and> filter is_TryLock tl = [] \<and> filter indexes_file_table tl = []"
  by (auto simp: periodic_reindex_def Let_def tick_failed_def split: prod.splits option.splits)

lemma periodic_optimize_acquired:
  "acquire_lock env (owl_db_dir (config env) @ ''/periodic_optimization.lock'') = None \<Longrightarrow>
   \<exists>tl. periodic_optimize env =
     [TryLock (owl_db_dir (config env) @ ''/periodic_optimization.lock''),
      Log INFO ''Periodic Lance optimization started.'' []]
     @ fst (optimize_tables env (fst (iter_all_tables env)) (0, 0, 0))
     @ ReleaseLock (owl_db_dir (config env) @ ''/periodic_optimization.lock'') # tl
     \<and> filter is_TryLock tl = []"
  by (auto simp: periodic_optimize_def Let_def tick_failed_def split: prod.splits option.splits)

section \<open>The lock of the periodic jobs\<close>

text \<open>
  C6. A tick of either periodic job tries its lock exactly once. If the lock is already
  held (the non-blocking acquisition raises \<^verbatim>\<open>Timeout\<close>), the tick consists of that
  one attempt and the log record that it was skipped: no \<^verbatim>\<open>create_indexes\<close>,
  \<^verbatim>\<open>compact_files\<close> or \<^verbatim>\<open>cleanup_old_versions\<close> call. And the reindex job never
  calls \<^verbatim>\<open>create_indexes\<close> on a file table.
\<close>

theorem lock_held_tick_skipped:
  assumes "reindex_lock = owl_db_dir (config env) @ ''/periodic_reindex.lock''"
    and "optimize_lock = owl_db_dir (config env) @ ''/periodic_optimization.lock''"
  shows
    "(acquire_lock env reindex_lock = Some Timeout
       \<longrightarrow> periodic_reindex env =
             [TryLock reindex_lock, Log INFO ''Periodic Lance re-indexing skipped.'' []]
           \<and> filter is_table_visit (periodic_reindex env) = [])
   \<and> (acquire_lock env optimize_lock = Some Timeout
       \<longrightarrow> periodic_optimize env =
             [TryLock optimize_lock, Log INFO ''Periodic Lance optimization skipped.'' []]
           \<and> filter is_table_visit (periodic_optimize env) = [])
   \<and> filter is_TryLock (periodic_reindex env) = [TryLock reindex_lock]
   \<and> filter is_TryLock (periodic_optimize env) = [TryLock optimize_lock]
   \<and> filter indexes_file_table (periodic_reindex env) = []"
proof -
  have a: "acquire_lock env reindex_lock = Some Timeout
       \<longrightarrow> periodic_reindex env =
             [TryLock reindex_lock, Log INFO ''Periodic Lance re-indexing skipped.'' []]
           \<and> filter is_table_visit (periodic_reindex env) = []"
    using assms by (simp add: periodic_reindex_def tick_failed_def)
  have b: "acquire_lock env optimize_lock = Some Timeout
       \<longrightarrow> periodic_optimize env =
             [TryLock optimize_lock, Log INFO ''Periodic Lance optimization skipped.'' []]
           \<and> filter is_table_visit (periodic_optimize env) = []"
    using assms by (simp add: periodic_optimize_def tick_failed_def)
  have c: "filter is_TryLock (periodic_reindex env) = [TryLock reindex_lock]"
  proof (cases "acquire_lock env reindex_lock")
    case None
    with assms periodic_reindex_acquired [of env] reindex_tables_no_lock [of env "(0, 0, 0)"]
    show ?thesis by auto
  next
    case (Some e)
    with assms show ?thesis by (simp add: periodic_reindex_def)
  qed
  have d: "filter is_TryLock (periodic_optimize env) = [TryLock optimize_lock]"
  proof (cases "acquire_lock env optimize_lock")
    case None
    with assms periodic_optimize_acquired [of env]
      optimize_tables_no_lock [of env "fst (iter_all_tables env)" "(0, 0, 0)"]
    show ?thesis by auto
  next
    case (Some e)
    with assms show ?thesis by (simp add: periodic_optimize_def)
  qed
  have e: "filter indexes_file_table (periodic_reindex env) = []"
  proof (cases "acquire_lock env reindex_lock")
    case None
    have "filter indexes_file_table (fst (reindex_tables env (fst (iter_all_tables env)) (0, 0, 0))) = []"
      unfolding filter_empty_iff using reindex_tables_file_table iter_all_tables_items by blast
    with None assms periodic_reindex_acquired [of env] show ?thesis by auto
  next
    case (Some e)
    with assms show ?thesis by (simp add: periodic_reindex_def tick_failed_def)
  qed
  from a b c d e show ?thesis by blast
qed

theorem lock_held_tick_skipped_witness:
  "periodic_reindex (demo_env \<lparr> acquire_lock := \<lambda>path. Some Timeout \<rparr>) =
     [TryLock ''db/periodic_reindex.lock'', Log INFO ''Periodic Lance re-indexing skipped.'' []]
   \<and> periodic_optimize (demo_env \<lparr> acquire_lock := \<lambda>path. Some Timeout \<rparr>) =
     [TryLock ''db/periodic_optimization.lock'', Log INFO ''Periodic Lance optimization skipped.'' []]
   \<and> filter is_table_visit (periodic_reindex (demo_env \<lparr> acquire_lock := \<lambda>path. Some Timeout \<rparr>)) = []
   \<and> filter is_table_visit (periodic_optimize (demo_env \<lparr> acquire_lock := \<lambda>path. Some Timeout \<rparr>)) = []"
proof -
  let ?env = "demo_env \<lparr> acquire_lock := \<lambda>path. Some Timeout \<rparr>"
  have dir: "owl_db_dir (config ?env) = ''db''"
    by (simp add: demo_env_def default_config_def)
  have held: "acquire_lock ?env (owl_db_dir (config ?env) @ ''/periodic_reindex.lock'') = Some Timeout"
    "acquire_lock ?env (owl_db_dir (config ?env) @ ''/periodic_optimization.lock'') = Some Timeout"
    by simp_all
  note t = lock_held_tick_skipped [OF refl refl, of ?env]
  from t held have
    "periodic_reindex ?env =
       [TryLock (owl_db_dir (config ?env) @ ''/periodic_reindex.lock''),
        Log INFO ''Periodic Lance re-indexing skipped.'' []]"
    "periodic_optimize ?env =
       [TryLock (owl_db_dir (config ?env) @ ''/periodic_optimization.lock''),
        Log INFO ''Periodic Lance optimization skipped.'' []]"
    "filter is_table_visit (periodic_reindex ?env) = []"
    "filter is_table_visit (periodic_optimize ?env) = []"
    by blast+
  then show ?thesis unfolding dir by simp
qed

section \<open>File ingestion: the scan of the embedding columns\<close>

lemma embed_cols_Cons:
  "embed_cols env keys title chunks (c # cs) (te, txs) =
     (if vlen c = 0 then embed_cols env keys title chunks cs (te, txs)
      else if col_id c = ''Title Embed'' then
        (case col_embedding env keys c [title] of
           Inl e \<Rightarrow> Inl e
         | Inr [] \<Rightarrow> Inl (IndexError ''index 0 is out of bounds'')
         | Inr (v # _) \<Rightarrow> embed_cols env keys title chunks cs (Some v, txs))
      else if col_id c = ''Text Embed'' then
        (case col_embedding env keys c (map chunk_text chunks) of
           Inl e \<Rightarrow> Inl e
         | Inr vs \<Rightarrow> embed_cols env keys title chunks cs (te, vs))
      else
        (case EmbedGenConfig_model_validate env (gen_config c) of
           Inl e \<Rightarrow> Inl e
         | Inr m \<Rightarrow> embed_cols env keys title chunks cs (te, txs)))"
  by (simp add: col_embedding_def Let_def split: sum.splits)

declare embed_cols.simps(2) [simp del]

lemma embed_cols_title:
  "embed_cols env keys title chunks cs (te0, tx0) = Inr (te, txs) \<Longrightarrow>
   te = te0 \<or> (\<exists>c \<in> set cs. \<exists>v rest. is_role ''Title Embed'' c
                  \<and> col_embedding env keys c [title] = Inr (v # rest) \<and> te = Some v)"
proof (induction cs arbitrary: te0 tx0)
  case Nil
  then show ?case by simp
next
  case (Cons c cs)
  from Cons.prems show ?case
    unfolding embed_cols_Cons
    by (auto simp: is_role_def split: if_splits sum.splits list.splits dest!: Cons.IH)
qed

lemma embed_cols_text:
  "embed_cols env keys title chunks cs (te0, tx0) = Inr (te, txs) \<Longrightarrow>
   txs = tx0 \<or> (\<exists>c \<in> set cs. is_role ''Text Embed'' c
                  \<and> col_embedding env keys c (map chunk_text chunks) = Inr txs)"
proof (induction cs arbitrary: te0 tx0)
  case Nil
  then show ?case by simp
next
  case (Cons c cs)
  from Cons.prems show ?case
    unfolding embed_cols_Cons
    by (auto simp: is_role_def split: if_splits sum.splits list.splits dest!: Cons.IH)
qed


section \<open>File ingestion: the insertion\<close>

lemma fst_reraise:
  "fst (reraise msg m) =
     fst m @ (case snd m of
                Inl e \<Rightarrow> if is_OwlException e then [] else [Log EXCEPTION msg []]
              | Inr x \<Rightarrow> [])"
  by (cases m) (auto simp: reraise_def split: sum.splits)

lemma inserts_or_indexes_simps [simp]:
  "inserts_or_indexes (GenRows t b)" "inserts_or_indexes (CreateIndexes t i)"
  "\<not> inserts_or_indexes (Log l s ns)" "\<not> inserts_or_indexes (AddTask t i)"
  "\<not> inserts_or_indexes (AddFile t n c k :: 'v event)"
  by (simp_all add: inserts_or_indexes_def)

lemma add_rows_events:
  assumes "table = get_gen_table (config env) (org_id request) (project_id request) tt"
  shows "filter inserts_or_indexes (fst (add_rows env request tt a keys)) =
           (case reindex_wanted env table (add_table_id a) (add_reindex a) of
              Inl e \<Rightarrow> [] | Inr w \<Rightarrow> [GenRows table (AddBody a)])"
  using assms
  by (auto simp: add_rows_def fst_reraise fst_bind snd_bind run_executor_def Let_def
      split: sum.splits)

lemma add_rows_ok:
  assumes "table = get_gen_table (config env) (org_id request) (project_id request) tt"
    and "snd (add_rows env request tt a keys) = Inr r"
  shows "filter inserts_or_indexes (fst (add_rows env request tt a keys)) = [GenRows table (AddBody a)]"
  using assms
  by (auto simp: add_rows_def fst_reraise fst_bind snd_bind run_executor_def Let_def
      split: sum.splits)

lemma extract_title_events [simp]:
  "filter inserts_or_indexes (fst (extract_title env request request_id chunks keys)) = []"
  by (auto simp: extract_title_def fst_bind Let_def split: sum.splits list.splits)

lemma knowledge_rejected:
  assumes "table = get_gen_table (config env) (org_id request) (project_id request) knowledge"
    and "open_meta env table table_id = Inr meta"
    and "embed_cols env keys title chunks (cols meta) (None, []) = Inr (te, txs)"
    and "te = None \<or> txs = []"
  shows "add_into_knowledge_table env request table_id info chunks title keys = ([], Inl embedding_issue)"
  using assms by (auto simp: add_into_knowledge_table_def bind_def Let_def split: option.splits)

lemma knowledge_accepted:
  assumes "table = get_gen_table (config env) (org_id request) (project_id request) knowledge"
    and "open_meta env table table_id = Inr meta"
    and "embed_cols env keys title chunks (cols meta) (None, []) = Inr (Some tv, txs)"
    and "txs \<noteq> []"
  shows "add_into_knowledge_table env request table_id info chunks title keys =
           bind (add_rows env request knowledge
                   (ingest_request env table_id (row_add_data chunks txs title tv (file_ID info))) keys)
             (\<lambda>_. bind ([CreateIndexes table table_id], create_indexes env table table_id)
                (\<lambda>_. ([], Inr OkResponse)))"
  using assms
  by (simp add: add_into_knowledge_table_def bind_def Let_def ingest_request_def)

lemma knowledge_cases:
  assumes "table = get_gen_table (config env) (org_id request) (project_id request) knowledge"
  shows "(\<exists>e. add_into_knowledge_table env request table_id info chunks title keys = ([], Inl e))
       \<or> (\<exists>meta tv txs. open_meta env table table_id = Inr meta
             \<and> embed_cols env keys title chunks (cols meta) (None, []) = Inr (Some tv, txs)
             \<and> txs \<noteq> [])"
proof (cases "open_meta env table table_id")
  case (Inl e)
  with assms show ?thesis
    by (simp add: add_into_knowledge_table_def bind_def)
next
  case (Inr meta)
  show ?thesis
  proof (cases "embed_cols env keys title chunks (cols meta) (None, [])")
    case (Inl e)
    with Inr assms show ?thesis
      by (simp add: add_into_knowledge_table_def bind_def)
  next
    case scanned: (Inr r)
    obtain te txs where r: "r = (te, txs)" by (cases r)
    show ?thesis
    proof (cases "te = None \<or> txs = []")
      case True
      from knowledge_rejected [OF assms Inr scanned [unfolded r] True]
      show ?thesis by blast
    next
      case False
      then obtain tv where "te = Some tv" "txs \<noteq> []" by auto
      with Inr scanned r show ?thesis by blast
    qed
  qed
qed

lemma add_file_unfold:
  assumes "load_file env (file_File_Name info) (file_Content info) = Inr loaded"
    and "split_chunks env loaded chunk_size chunk_overlap = Inr chunks"
  shows "add_file env request request_id table_id info chunk_size chunk_overlap keys =
     (Log DEBUG (''Splitting file: '' @ file_File_Name info) []
        # fst (bind (extract_title env request request_id chunks keys)
                 (\<lambda>title. add_into_knowledge_table env request table_id info chunks title keys)),
      snd (bind (extract_title env request request_id chunks keys)
             (\<lambda>title. add_into_knowledge_table env request table_id info chunks title keys)))"
  using assms by (simp add: add_file_def bind_def Let_def split: prod.splits sum.splits)

lemma add_file_titled:
  assumes "load_file env (file_File_Name info) (file_Content info) = Inr loaded"
    and "split_chunks env loaded chunk_size chunk_overlap = Inr chunks"
    and "extract_title env request request_id chunks keys = (evs, Inr title)"
  shows "add_file env request request_id table_id info chunk_size chunk_overlap keys =
     (Log DEBUG (''Splitting file: '' @ file_File_Name info) [] # evs
        @ fst (add_into_knowledge_table env request table_id info chunks title keys),
      snd (add_into_knowledge_table env request table_id info chunks title keys))"
  using assms by (simp add: add_file_unfold fst_bind snd_bind)

lemma add_file_untitled:
  assumes "load_file env (file_File_Name info) (file_Content info) = Inr loaded"
    and "split_chunks env loaded chunk_size chunk_overlap = Inr chunks"
    and "extract_title env request request_id chunks keys = (evs, Inl e)"
  shows "add_file env request request_id table_id info chunk_size chunk_overlap keys =
     (Log DEBUG (''Splitting file: '' @ file_File_Name info) [] # evs, Inl e)"
  using assms by (simp add: add_file_unfold fst_bind snd_bind)

lemma length_row_add_data [simp]:
  "length (row_add_data chunks txs title tv fid) = min (length chunks) (length txs)"
  by (simp add: row_add_data_def)

lemma nth_row_add_data:
  "i < length chunks \<Longrightarrow> i < length txs \<Longrightarrow>
   row_add_data chunks txs title tv fid ! i =
     [(''Text'', Str (chunk_text (chunks ! i))), (''Text Embed'', Vec (txs ! i)),
      (''Title'', Str title), (''Title Embed'', Vec tv), (''File ID'', Str fid)]"
  by (simp add: row_add_data_def)

lemma row_add_data_keys:
  "row \<in> set (row_add_data chunks txs title tv fid) \<Longrightarrow>
   map fst row = [''Text'', ''Text Embed'', ''Title'', ''Title Embed'', ''File ID'']
   \<and> map_of row ''Title'' = Some (Str title) \<and> map_of row ''Title Embed'' = Some (Vec tv)
   \<and> map_of row ''File ID'' = Some (Str fid)"
  by (auto simp: row_add_data_def)

lemma col_embedding_length:
  "one_vector_per_text env \<Longrightarrow> col_embedding env keys c texts = Inr vs \<Longrightarrow> length vs = length texts"
  unfolding one_vector_per_text_def col_embedding_def by (auto split: sum.splits)

lemma embed_cols_length:
  assumes "one_vector_per_text env"
    and "embed_cols env keys title chunks cs (None, []) = Inr (te, txs)"
  shows "txs = [] \<or> length txs = length chunks"
  using embed_cols_text [OF assms(2)] col_embedding_length [OF assms(1)] by fastforce







lemma upload_checksum_ok:
  "upload_checksum H content = Inr (hexdigest H (feed_blocks H (2 ^ 10) content 0 (new_hasher H)))"
  by (simp add: upload_checksum_def checksum_blocks_def)

lemma upload_file_registered:
  assumes "upload_checksum H content = Inr checksum"
    and "file_table = get_file_table (config env) (org_id request) (project_id request)"
    and "file_table_add_file env file_table file_name content checksum = Inr info"
  shows "upload_file env H request content file_name table_id chunk_size chunk_overlap keys =
     ([Log INFO
        (req_id request @ '' - Uploading file (file_name='' @ file_name @ ''  table_id='' @ table_id
           @ ''  chunk_size={}  chunk_overlap={})'') [chunk_size, chunk_overlap],
       AddFile file_table file_name content checksum]
        @ fst (add_file env request (req_id request) table_id info chunk_size chunk_overlap keys)
        @ (case snd (add_file env request (req_id request) table_id info chunk_size chunk_overlap keys) of
             Inl e \<Rightarrow> if is_OwlException e then []
                      else [Log EXCEPTION
                             (''['' @ org_id request @ ''/'' @ project_id request
                                @ ''] Failed to upload file into Knowledge Table: '' @ file_name) []]
           | Inr x \<Rightarrow> []),
      snd (add_file env request (req_id request) table_id info chunk_size chunk_overlap keys))"
proof -
  obtain evs r where a:
    "add_file env request (req_id request) table_id info chunk_size chunk_overlap keys = (evs, r)"
    by (cases "add_file env request (req_id request) table_id info chunk_size chunk_overlap keys")
  show ?thesis
    using assms unfolding upload_file_def a
    by (cases r) (simp_all add: bind_def reraise_def Let_def a)
qed

lemma knowledge_ok:
  assumes table: "table = get_gen_table (config env) (org_id request) (project_id request) knowledge"
    and ok: "snd (add_into_knowledge_table env request table_id info chunks title keys) = Inr r"
    and len: "one_vector_per_text env"
  shows "\<exists>meta tv txs. open_meta env table table_id = Inr meta
      \<and> (\<exists>c \<in> set (cols meta). \<exists>rest. is_role ''Title Embed'' c
             \<and> col_embedding env keys c [title] = Inr (tv # rest))
      \<and> (\<exists>c \<in> set (cols meta). is_role ''Text Embed'' c
             \<and> col_embedding env keys c (map chunk_text chunks) = Inr txs)
      \<and> length txs = length chunks \<and> 1 \<le> length chunks
      \<and> fst (add_into_knowledge_table env request table_id info chunks title keys) =
          fst (add_rows env request knowledge
                 (ingest_request env table_id (row_add_data chunks txs title tv (file_ID info))) keys)
            @ [CreateIndexes table table_id]
      \<and> filter inserts_or_indexes (fst (add_into_knowledge_table env request table_id info chunks title keys)) =
          [GenRows table
             (AddBody (ingest_request env table_id (row_add_data chunks txs title tv (file_ID info)))),
           CreateIndexes table table_id]"
proof -
  from knowledge_cases [OF table, where table_id = table_id and info = info
      and chunks = chunks and title = title and keys = keys] ok
  obtain meta tv txs where meta: "open_meta env table table_id = Inr meta"
    and scan: "embed_cols env keys title chunks (cols meta) (None, []) = Inr (Some tv, txs)"
    and txs: "txs \<noteq> []"
    by auto
  let ?a = "ingest_request env table_id (row_add_data chunks txs title tv (file_ID info))"
  note k = knowledge_accepted [OF table meta scan txs, where info = info]
  from embed_cols_title [OF scan]
  have title_col: "\<exists>c \<in> set (cols meta). \<exists>rest. is_role ''Title Embed'' c
      \<and> col_embedding env keys c [title] = Inr (tv # rest)"
    by auto
  from embed_cols_text [OF scan] txs
  have text_col: "\<exists>c \<in> set (cols meta). is_role ''Text Embed'' c
      \<and> col_embedding env keys c (map chunk_text chunks) = Inr txs"
    by auto
  from embed_cols_length [OF len scan] txs have length: "length txs = length chunks" by simp
  with txs have nonempty: "1 \<le> length chunks" by (cases txs) auto
  from ok have added: "\<exists>x. snd (add_rows env request knowledge ?a keys) = Inr x"
    unfolding k by (auto simp: snd_bind split: sum.splits)
  then obtain x where x: "snd (add_rows env request knowledge ?a keys) = Inr x" ..
  from ok have indexed: "\<exists>y. create_indexes env table table_id = Inr y"
    unfolding k by (auto simp: snd_bind split: sum.splits)
  have events: "fst (add_into_knowledge_table env request table_id info chunks title keys) =
      fst (add_rows env request knowledge ?a keys) @ [CreateIndexes table table_id]"
    unfolding k using x indexed by (auto simp: fst_bind snd_bind)
  have filtered: "filter inserts_or_indexes
      (fst (add_into_knowledge_table env request table_id info chunks title keys)) =
      [GenRows table (AddBody ?a), CreateIndexes table table_id]"
    unfolding events using add_rows_ok [OF table x] by simp
  from meta title_col text_col length nonempty events filtered show ?thesis by blast
qed

section \<open>File ingestion: all chunks or none\<close>




section \<open>File ingestion: failure of the title extraction\<close>

lemma gen_rows_of_inserts:
  "filter is_GenRows (filter inserts_or_indexes xs) = filter is_GenRows xs"
  by (induction xs) (auto simp: inserts_or_indexes_def)

lemma extract_title_failed:
  assumes "model_names env (DEFAULT_CHAT_MODEL env) [''chat''] keys = Inr (model # others)"
    and "predict env request model (title_messages (concat (map chunk_text (take 8 chunks)))) keys = Inl e"
  shows "extract_title env request request_id chunks keys =
           ([Log DEBUG (request_id @ '' - Performing title extraction using: '' @ model) [],
             Log EXCEPTION
           (request_id @ '' - Title extraction errored for excerpt: ''
              @ [CHR 0x0A] @ concat (map chunk_text (take 8 chunks)) @ [CHR 0x0A]) []],
            Inr [])"
  using assms by (simp add: extract_title_def bind_def Let_def)

text \<open>
  C4. If \<^verbatim>\<open>predict\<close> raises during the title extraction, the exception is logged and
  the title is the empty string: \<^verbatim>\<open>_add_file\<close> goes on exactly as the second section
  runs with title \<open>''''\<close>, and its result is the result of that section, which does not
  mention the exception. When that section succeeds, the one add request has a row for
  every chunk, each with \<^verbatim>\<open>Title\<close> the empty string and \<^verbatim>\<open>Title Embed\<close> the
  first vector of the embedding of the list that holds only the empty string.
\<close>

theorem title_failure_falls_back:
  assumes "load_file env (file_File_Name info) (file_Content info) = Inr loaded"
    and "split_chunks env loaded chunk_size chunk_overlap = Inr chunks"
    and "model_names env (DEFAULT_CHAT_MODEL env) [''chat''] keys = Inr (model # others)"
    and "predict env request model (title_messages (concat (map chunk_text (take 8 chunks)))) keys = Inl e"
    and "table = get_gen_table (config env) (org_id request) (project_id request) knowledge"
  shows
    "add_file env request request_id table_id info chunk_size chunk_overlap keys =
       ([Log DEBUG (''Splitting file: '' @ file_File_Name info) [],
         Log DEBUG (request_id @ '' - Performing title extraction using: '' @ model) [],
         Log EXCEPTION
           (request_id @ '' - Title extraction errored for excerpt: ''
              @ [CHR 0x0A] @ concat (map chunk_text (take 8 chunks)) @ [CHR 0x0A]) []]
          @ fst (add_into_knowledge_table env request table_id info chunks [] keys),
        snd (add_into_knowledge_table env request table_id info chunks [] keys))
   \<and> (snd (add_into_knowledge_table env request table_id info chunks [] keys) = Inr OkResponse
        \<and> one_vector_per_text env
       \<longrightarrow> (\<exists>title_embed text_embeds meta.
             filter is_GenRows
               (fst (add_file env request request_id table_id info chunk_size chunk_overlap keys))
               = [GenRows table
                    (AddBody \<lparr> add_table_id = table_id,
                               add_data = row_add_data chunks text_embeds [] title_embed (file_ID info),
                               add_stream = False,
                               add_reindex = RowAddRequest_reindex_default env \<rparr>)]
           \<and> length (row_add_data chunks text_embeds [] title_embed (file_ID info)) = length chunks
           \<and> (\<forall>row \<in> set (row_add_data chunks text_embeds [] title_embed (file_ID info)).
                 map_of row ''Title'' = Some (Str [])
                 \<and> map_of row ''Title Embed'' = Some (Vec title_embed))
           \<and> open_meta env table table_id = Inr meta
           \<and> (\<exists>c \<in> set (cols meta). \<exists>rest. is_role ''Title Embed'' c
                 \<and> col_embedding env keys c [[]] = Inr (title_embed # rest))))"
proof (intro conjI impI)
  note t = extract_title_failed [OF assms(3,4), of request_id]
  show unfolded: "add_file env request request_id table_id info chunk_size chunk_overlap keys =
       ([Log DEBUG (''Splitting file: '' @ file_File_Name info) [],
         Log DEBUG (request_id @ '' - Performing title extraction using: '' @ model) [],
         Log EXCEPTION
           (request_id @ '' - Title extraction errored for excerpt: ''
              @ [CHR 0x0A] @ concat (map chunk_text (take 8 chunks)) @ [CHR 0x0A]) []]
          @ fst (add_into_knowledge_table env request table_id info chunks [] keys),
        snd (add_into_knowledge_table env request table_id info chunks [] keys))"
    by (simp add: add_file_titled [OF assms(1,2) t])
  assume "snd (add_into_knowledge_table env request table_id info chunks [] keys) = Inr OkResponse
        \<and> one_vector_per_text env"
  then have ok: "snd (add_into_knowledge_table env request table_id info chunks [] keys) = Inr OkResponse"
    and len: "one_vector_per_text env"
    by simp_all
  from knowledge_ok [OF assms(5) ok len]
  obtain meta tv txs where meta: "open_meta env table table_id = Inr meta"
    and title_col: "\<exists>c \<in> set (cols meta). \<exists>rest. is_role ''Title Embed'' c
             \<and> col_embedding env keys c [[]] = Inr (tv # rest)"
    and length: "length txs = length chunks"
    and events: "filter inserts_or_indexes (fst (add_into_knowledge_table env request table_id info chunks [] keys)) =
          [GenRows table
             (AddBody (ingest_request env table_id (row_add_data chunks txs [] tv (file_ID info)))),
           CreateIndexes table table_id]"
    by blast
  have "filter is_GenRows (fst (add_into_knowledge_table env request table_id info chunks [] keys)) =
        filter is_GenRows (filter inserts_or_indexes
          (fst (add_into_knowledge_table env request table_id info chunks [] keys)))"
    by (rule gen_rows_of_inserts [symmetric])
  also have "\<dots> = [GenRows table
           (AddBody (ingest_request env table_id (row_add_data chunks txs [] tv (file_ID info))))]"
    unfolding events by simp
  finally have gen: "filter is_GenRows
      (fst (add_file env request request_id table_id info chunk_size chunk_overlap keys))
      = [GenRows table
           (AddBody \<lparr> add_table_id = table_id,
                      add_data = row_add_data chunks txs [] tv (file_ID info),
                      add_stream = False,
                      add_reindex = RowAddRequest_reindex_default env \<rparr>)]"
    unfolding unfolded ingest_request_def by simp
  have rows: "\<forall>row \<in> set (row_add_data chunks txs [] tv (file_ID info)).
      map_of row ''Title'' = Some (Str []) \<and> map_of row ''Title Embed'' = Some (Vec tv)"
  proof (intro ballI conjI)
    fix row
    assume r: "row \<in> set (row_add_data chunks txs [] tv (file_ID info))"
    from row_add_data_keys [OF r] show "map_of row ''Title'' = Some (Str [])" by simp
    from row_add_data_keys [OF r] show "map_of row ''Title Embed'' = Some (Vec tv)" by simp
  qed
  have n: "length (row_add_data chunks txs [] tv (file_ID info)) = length chunks"
    using length by simp
  show "\<exists>title_embed text_embeds meta.
             filter is_GenRows
               (fst (add_file env request request_id table_id info chunk_size chunk_overlap keys))
               = [GenRows table
                    (AddBody \<lparr> add_table_id = table_id,
                               add_data = row_add_data chunks text_embeds [] title_embed (file_ID info),
                               add_stream = False,
                               add_reindex = RowAddRequest_reindex_default env \<rparr>)]
           \<and> length (row_add_data chunks text_embeds [] title_embed (file_ID info)) = length chunks
           \<and> (\<forall>row \<in> set (row_add_data chunks text_embeds [] title_embed (file_ID info)).
                 map_of row ''Title'' = Some (Str [])
                 \<and> map_of row ''Title Embed'' = Some (Vec title_embed))
           \<and> open_meta env table table_id = Inr meta
           \<and> (\<exists>c \<in> set (cols meta). \<exists>rest. is_role ''Title Embed'' c
                 \<and> col_embedding env keys c [[]] = Inr (title_embed # rest))"
    by (rule exI [of _ tv], rule exI [of _ txs], rule exI [of _ meta])
      (intro conjI gen n rows meta title_col)
qed


theorem title_failure_falls_back_witness:
  "snd (add_file (demo_env \<lparr> predict := \<lambda>request model messages keys. Inl (OtherException ''llm down'') \<rparr>)
          demo_request ''r1'' ''docs'' demo_info 1000 200 demo_keys) = Inr OkResponse
   \<and> (\<exists>title_embed text_embeds.
        filter is_GenRows
          (fst (add_file (demo_env \<lparr> predict := \<lambda>request model messages keys. Inl (OtherException ''llm down'') \<rparr>)
                  demo_request ''r1'' ''docs'' demo_info 1000 200 demo_keys))
        = [GenRows demo_table
             (AddBody \<lparr> add_table_id = ''docs'',
                        add_data = row_add_data demo_chunks text_embeds [] title_embed ''file-1'',
                        add_stream = False, add_reindex = None \<rparr>)]
        \<and> length (row_add_data demo_chunks text_embeds [] title_embed ''file-1'') = 3)"
proof -
  let ?env = "demo_env \<lparr> predict := \<lambda>request model messages keys. Inl (OtherException ''llm down'') \<rparr>"
  have load: "load_file ?env (file_File_Name demo_info) (file_Content demo_info) = Inr demo_chunks"
    by code_simp
  have split: "split_chunks ?env demo_chunks 1000 200 = Inr demo_chunks"
    by (simp add: demo_env_def)
  have models: "model_names ?env (DEFAULT_CHAT_MODEL ?env) [''chat''] demo_keys = Inr (''chat-model'' # [])"
    by (simp add: demo_env_def)
  have fails: "predict ?env demo_request ''chat-model''
      (title_messages (concat (map chunk_text (take 8 demo_chunks)))) demo_keys
      = Inl (OtherException ''llm down'')"
    by simp
  have table: "get_gen_table (config ?env) (org_id demo_request) (project_id demo_request) knowledge
      = demo_table"
    by (simp add: get_gen_table_def demo_env_def demo_request_def default_config_def demo_table_def)
  have ok: "snd (add_into_knowledge_table ?env demo_request ''docs'' demo_info demo_chunks [] demo_keys)
      = Inr OkResponse"
    by code_simp
  have len: "one_vector_per_text ?env"
    by (simp add: one_vector_per_text_def embed_def demo_env_def)
  have vals: "RowAddRequest_reindex_default ?env = None" "file_ID demo_info = ''file-1''"
    "length demo_chunks = 3"
    by (simp_all add: demo_env_def demo_info_def demo_chunks_def)
  note t = title_failure_falls_back [OF load split models fails refl, where table_id = "''docs''"
      and request_id = "''r1''"]
  from t have continued:
    "snd (add_file ?env demo_request ''r1'' ''docs'' demo_info 1000 200 demo_keys) =
     snd (add_into_knowledge_table ?env demo_request ''docs'' demo_info demo_chunks [] demo_keys)"
    by simp
  from t [THEN conjunct2, rule_format, OF conjI [OF ok len]]
  obtain title_embed text_embeds where
    "filter is_GenRows (fst (add_file ?env demo_request ''r1'' ''docs'' demo_info 1000 200 demo_keys))
       = [GenRows demo_table
            (AddBody \<lparr> add_table_id = ''docs'',
                       add_data = row_add_data demo_chunks text_embeds [] title_embed ''file-1'',
                       add_stream = False, add_reindex = None \<rparr>)]"
    "length (row_add_data demo_chunks text_embeds [] title_embed ''file-1'') = 3"
    unfolding table vals by (elim exE conjE)
  with continued ok show ?thesis
    by (intro conjI exI) simp_all
qed

section \<open>File ingestion: the choice of the chat model\<close>

lemma extract_title_no_model:
  assumes "model_names env (DEFAULT_CHAT_MODEL env) [''chat''] keys = Inl e
         \<or> model_names env (DEFAULT_CHAT_MODEL env) [''chat''] keys = Inr []"
  shows "extract_title env request request_id chunks keys =
           ([], Inl (case model_names env (DEFAULT_CHAT_MODEL env) [''chat''] keys of
                       Inl e \<Rightarrow> e | Inr models \<Rightarrow> IndexError ''list index out of range''))"
  using assms by (auto simp: extract_title_def bind_def Let_def)

text \<open>
  C10. The chat model is chosen outside the \<^verbatim>\<open>try\<close> of the title extraction: if
  \<^verbatim>\<open>model_names\<close> raises, or returns an empty list (\<^verbatim>\<open>model[0]\<close> raises), then
  \<^verbatim>\<open>_add_file\<close> raises that exception right after the split, \<^verbatim>\<open>upload_file\<close>
  re-raises it, and no add request reaches the knowledge table.
\<close>

theorem model_selection_not_covered:
  assumes "upload_checksum H content = Inr checksum"
    and "file_table_add_file env (get_file_table (config env) (org_id request) (project_id request))
           file_name content checksum = Inr info"
    and "load_file env (file_File_Name info) (file_Content info) = Inr loaded"
    and "split_chunks env loaded chunk_size chunk_overlap = Inr chunks"
    and "model_names env (DEFAULT_CHAT_MODEL env) [''chat''] keys = Inl e
         \<or> model_names env (DEFAULT_CHAT_MODEL env) [''chat''] keys = Inr []"
    and "err = (case model_names env (DEFAULT_CHAT_MODEL env) [''chat''] keys of
                  Inl e \<Rightarrow> e | Inr models \<Rightarrow> IndexError ''list index out of range'')"
  shows
    "add_file env request (req_id request) table_id info chunk_size chunk_overlap keys =
       ([Log DEBUG (''Splitting file: '' @ file_File_Name info) []], Inl err)
   \<and> snd (upload_file env H request content file_name table_id chunk_size chunk_overlap keys) = Inl err
   \<and> filter is_GenRows
        (fst (upload_file env H request content file_name table_id chunk_size chunk_overlap keys)) = []"
proof -
  have a: "add_file env request (req_id request) table_id info chunk_size chunk_overlap keys =
       ([Log DEBUG (''Splitting file: '' @ file_File_Name info) []], Inl err)"
    using add_file_untitled [OF assms(3,4) extract_title_no_model [OF assms(5)]] assms(6) by simp
  note u = upload_file_registered [OF assms(1) refl assms(2), where table_id = table_id
      and chunk_size = chunk_size and chunk_overlap = chunk_overlap and keys = keys]
  have b: "snd (upload_file env H request content file_name table_id chunk_size chunk_overlap keys)
      = Inl err"
    unfolding u a by simp
  have c: "filter is_GenRows
      (fst (upload_file env H request content file_name table_id chunk_size chunk_overlap keys)) = []"
    unfolding u a by simp
  from a b c show ?thesis by (intro conjI)
qed

theorem model_selection_not_covered_witness:
  "snd (upload_file (demo_env \<lparr> model_names := \<lambda>prefer capabilities keys. Inr [] \<rparr>) list_hasher
          demo_request [97, 98, 99] ''f.txt'' ''docs'' 1000 200 demo_keys)
     = Inl (IndexError ''list index out of range'')
   \<and> filter is_GenRows
       (fst (upload_file (demo_env \<lparr> model_names := \<lambda>prefer capabilities keys. Inr [] \<rparr>) list_hasher
          demo_request [97, 98, 99] ''f.txt'' ''docs'' 1000 200 demo_keys)) = []
   \<and> snd (upload_file
            (demo_env \<lparr> model_names := \<lambda>prefer capabilities keys. Inl (OtherException ''no provider'') \<rparr>)
            list_hasher demo_request [97, 98, 99] ''f.txt'' ''docs'' 1000 200 demo_keys)
     = Inl (OtherException ''no provider'')"
proof -
  let ?none = "demo_env \<lparr> model_names := \<lambda>prefer capabilities keys. Inr [] \<rparr>"
  let ?down = "demo_env \<lparr> model_names := \<lambda>prefer capabilities keys.
                  Inl (OtherException ''no provider'') \<rparr>"
  have sum: "upload_checksum list_hasher [97, 98, 99] = Inr ''abc''"
    by code_simp
  have reg1: "file_table_add_file ?none
      (get_file_table (config ?none) (org_id demo_request) (project_id demo_request))
      ''f.txt'' [97, 98, 99] ''abc'' = Inr demo_info"
    and reg2: "file_table_add_file ?down
      (get_file_table (config ?down) (org_id demo_request) (project_id demo_request))
      ''f.txt'' [97, 98, 99] ''abc'' = Inr demo_info"
    by (simp_all add: demo_env_def demo_info_def)
  have load1: "load_file ?none (file_File_Name demo_info) (file_Content demo_info) = Inr demo_chunks"
    and load2: "load_file ?down (file_File_Name demo_info) (file_Content demo_info) = Inr demo_chunks"
    by code_simp+
  have split1: "split_chunks ?none demo_chunks 1000 200 = Inr demo_chunks"
    and split2: "split_chunks ?down demo_chunks 1000 200 = Inr demo_chunks"
    by (simp_all add: demo_env_def)
  have none: "model_names ?none (DEFAULT_CHAT_MODEL ?none) [''chat''] demo_keys
        = Inl (OtherException ''no provider'')
      \<or> model_names ?none (DEFAULT_CHAT_MODEL ?none) [''chat''] demo_keys = Inr []"
    by simp
  have down: "model_names ?down (DEFAULT_CHAT_MODEL ?down) [''chat''] demo_keys
        = Inl (OtherException ''no provider'')
      \<or> model_names ?down (DEFAULT_CHAT_MODEL ?down) [''chat''] demo_keys = Inr []"
    by simp
  note t1 = model_selection_not_covered [OF sum reg1 load1 split1 none refl, where table_id = "''docs''"]
  note t2 = model_selection_not_covered [OF sum reg2 load2 split2 down refl, where table_id = "''docs''"]
  from t1 t2 show ?thesis by simp
qed

section \<open>File ingestion: the rows of a successful upload\<close>

lemma add_file_ok:
  assumes load: "load_file env (file_File_Name info) (file_Content info) = Inr loaded"
    and split: "split_chunks env loaded chunk_size chunk_overlap = Inr chunks"
    and ok: "snd (add_file env request request_id table_id info chunk_size chunk_overlap keys) = Inr r"
  shows "\<exists>evs title.
      extract_title env request request_id chunks keys = (evs, Inr title)
      \<and> fst (add_file env request request_id table_id info chunk_size chunk_overlap keys) =
          Log DEBUG (''Splitting file: '' @ file_File_Name info) [] # evs
            @ fst (add_into_knowledge_table env request table_id info chunks title keys)
      \<and> snd (add_into_knowledge_table env request table_id info chunks title keys) = Inr r"
proof -
  obtain evs t where e: "extract_title env request request_id chunks keys = (evs, t)"
    by (cases "extract_title env request request_id chunks keys")
  show ?thesis
  proof (cases t)
    case (Inl err)
    with add_file_untitled [OF load split] e ok show ?thesis by simp
  next
    case (Inr title)
    with add_file_titled [OF load split] e ok show ?thesis by simp
  qed
qed

text \<open>
  C2. When an upload returns \<^verbatim>\<open>OkResponse\<close> for a file split into the chunks
  \<open>chunks\<close>, with an embedder that returns one vector per text: among the insertions
  and index builds of the call there is exactly one add request, not streamed, on the
  knowledge table, followed by one \<^verbatim>\<open>create_indexes\<close> on that table, which is the last
  effect of the call. The request has one row per chunk (and there is at least one
  chunk); row \<open>i\<close> holds the text of chunk \<open>i\<close>, the \<open>i\<close>-th vector of the embedding of
  the chunk texts for the \<^verbatim>\<open>Text Embed\<close> column, the title and its embedding for the
  \<^verbatim>\<open>Title Embed\<close> column, the same in every row, and the id of the record the file
  table returned.
\<close>

theorem ingestion_rows:
  assumes "upload_file env H request content file_name table_id chunk_size chunk_overlap keys
             = (evs, Inr OkResponse)"
    and "upload_checksum H content = Inr checksum"
    and "file_table_add_file env (get_file_table (config env) (org_id request) (project_id request))
           file_name content checksum = Inr info"
    and "load_file env (file_File_Name info) (file_Content info) = Inr loaded"
    and "split_chunks env loaded chunk_size chunk_overlap = Inr chunks"
    and "one_vector_per_text env"
    and "table = get_gen_table (config env) (org_id request) (project_id request) knowledge"
  shows
    "\<exists>title title_embed text_embeds meta.
       filter inserts_or_indexes evs =
         [GenRows table
            (AddBody \<lparr> add_table_id = table_id,
                       add_data = row_add_data chunks text_embeds title title_embed (file_ID info),
                       add_stream = False,
                       add_reindex = RowAddRequest_reindex_default env \<rparr>),
          CreateIndexes table table_id]
     \<and> last evs = CreateIndexes table table_id
     \<and> length (row_add_data chunks text_embeds title title_embed (file_ID info)) = length chunks
     \<and> 1 \<le> length chunks
     \<and> (\<forall>i < length chunks.
           row_add_data chunks text_embeds title title_embed (file_ID info) ! i =
             [(''Text'', Str (chunk_text (chunks ! i))),
              (''Text Embed'', Vec (text_embeds ! i)),
              (''Title'', Str title),
              (''Title Embed'', Vec title_embed),
              (''File ID'', Str (file_ID info))])
     \<and> open_meta env table table_id = Inr meta
     \<and> (\<exists>c \<in> set (cols meta). is_role ''Text Embed'' c
           \<and> col_embedding env keys c (map chunk_text chunks) = Inr text_embeds)
     \<and> (\<exists>c \<in> set (cols meta). \<exists>rest. is_role ''Title Embed'' c
           \<and> col_embedding env keys c [title] = Inr (title_embed # rest))"
proof -
  note u = upload_file_registered [OF assms(2) refl assms(3), where table_id = table_id
      and chunk_size = chunk_size and chunk_overlap = chunk_overlap and keys = keys]
  from assms(1) u
  have a_ok: "snd (add_file env request (req_id request) table_id info chunk_size chunk_overlap keys)
      = Inr OkResponse"
    by simp
  from assms(1) u a_ok
  have evs: "evs = [Log INFO
        (req_id request @ '' - Uploading file (file_name='' @ file_name @ ''  table_id='' @ table_id
           @ ''  chunk_size={}  chunk_overlap={})'') [chunk_size, chunk_overlap],
       AddFile (get_file_table (config env) (org_id request) (project_id request))
         file_name content checksum]
      @ fst (add_file env request (req_id request) table_id info chunk_size chunk_overlap keys)"
    by simp
  from add_file_ok [OF assms(4,5) a_ok]
  obtain evs1 title where
    titled: "extract_title env request (req_id request) chunks keys = (evs1, Inr title)"
    and a_evs: "fst (add_file env request (req_id request) table_id info chunk_size chunk_overlap keys) =
          Log DEBUG (''Splitting file: '' @ file_File_Name info) [] # evs1
            @ fst (add_into_knowledge_table env request table_id info chunks title keys)"
    and k_ok: "snd (add_into_knowledge_table env request table_id info chunks title keys) = Inr OkResponse"
    by blast
  from knowledge_ok [OF assms(7) k_ok assms(6)]
  obtain meta tv txs where meta: "open_meta env table table_id = Inr meta"
    and title_col: "\<exists>c \<in> set (cols meta). \<exists>rest. is_role ''Title Embed'' c
             \<and> col_embedding env keys c [title] = Inr (tv # rest)"
    and text_col: "\<exists>c \<in> set (cols meta). is_role ''Text Embed'' c
             \<and> col_embedding env keys c (map chunk_text chunks) = Inr txs"
    and length: "length txs = length chunks"
    and nonempty: "1 \<le> length chunks"
    and k_evs: "fst (add_into_knowledge_table env request table_id info chunks title keys) =
          fst (add_rows env request knowledge
                 (ingest_request env table_id (row_add_data chunks txs title tv (file_ID info))) keys)
            @ [CreateIndexes table table_id]"
    and k_filtered: "filter inserts_or_indexes
          (fst (add_into_knowledge_table env request table_id info chunks title keys)) =
          [GenRows table
             (AddBody (ingest_request env table_id (row_add_data chunks txs title tv (file_ID info)))),
           CreateIndexes table table_id]"
    by blast
  have evs1: "filter inserts_or_indexes evs1 = []"
    using extract_title_events [of env request "req_id request" chunks keys] titled by simp
  have filtered: "filter inserts_or_indexes evs =
         [GenRows table
            (AddBody \<lparr> add_table_id = table_id,
                       add_data = row_add_data chunks txs title tv (file_ID info),
                       add_stream = False,
                       add_reindex = RowAddRequest_reindex_default env \<rparr>),
          CreateIndexes table table_id]"
    unfolding evs a_evs using evs1 k_filtered by (simp add: ingest_request_def)
  have last: "last evs = CreateIndexes table table_id"
    unfolding evs a_evs k_evs by simp
  have n: "length (row_add_data chunks txs title tv (file_ID info)) = length chunks"
    using length by simp
  have rows: "\<forall>i < length chunks.
           row_add_data chunks txs title tv (file_ID info) ! i =
             [(''Text'', Str (chunk_text (chunks ! i))),
              (''Text Embed'', Vec (txs ! i)),
              (''Title'', Str title),
              (''Title Embed'', Vec tv),
              (''File ID'', Str (file_ID info))]"
    using length by (simp add: nth_row_add_data)
  show ?thesis
    by (rule exI [of _ title], rule exI [of _ tv], rule exI [of _ txs], rule exI [of _ meta])
      (intro conjI filtered last n nonempty rows meta text_col title_col)
qed

theorem ingestion_rows_witness:
  "snd (upload_file demo_env list_hasher demo_request [97, 98, 99] ''f.txt'' ''docs'' 1000 200 demo_keys)
     = Inr OkResponse
   \<and> one_vector_per_text demo_env
   \<and> (\<exists>title title_embed text_embeds.
        filter inserts_or_indexes
          (fst (upload_file demo_env list_hasher demo_request [97, 98, 99] ''f.txt'' ''docs'' 1000 200
                  demo_keys))
        = [GenRows demo_table
             (AddBody \<lparr> add_table_id = ''docs'',
                        add_data = row_add_data demo_chunks text_embeds title title_embed ''file-1'',
                        add_stream = False, add_reindex = None \<rparr>),
           CreateIndexes demo_table ''docs'']
        \<and> length (row_add_data demo_chunks text_embeds title title_embed ''file-1'') = 3)
   \<and> last (fst (upload_file demo_env list_hasher demo_request [97, 98, 99] ''f.txt'' ''docs'' 1000 200
                  demo_keys))
     = CreateIndexes demo_table ''docs''"
proof -
  let ?up = "upload_file demo_env list_hasher demo_request [97, 98, 99] ''f.txt'' ''docs'' 1000 200 demo_keys"
  have returned: "snd ?up = Inr OkResponse"
    by code_simp
  then have ok: "?up = (fst ?up, Inr OkResponse)"
    by (simp add: prod_eq_iff)
  have sum: "upload_checksum list_hasher [97, 98, 99] = Inr ''abc''"
    by code_simp
  have reg: "file_table_add_file demo_env
      (get_file_table (config demo_env) (org_id demo_request) (project_id demo_request))
      ''f.txt'' [97, 98, 99] ''abc'' = Inr demo_info"
    by (simp add: demo_env_def demo_info_def)
  have load: "load_file demo_env (file_File_Name demo_info) (file_Content demo_info) = Inr demo_chunks"
    by code_simp
  have split: "split_chunks demo_env demo_chunks 1000 200 = Inr demo_chunks"
    by (simp add: demo_env_def)
  have len: "one_vector_per_text demo_env"
    by (simp add: one_vector_per_text_def embed_def demo_env_def)
  have table: "get_gen_table (config demo_env) (org_id demo_request) (project_id demo_request) knowledge
      = demo_table"
    by (simp add: get_gen_table_def demo_env_def demo_request_def default_config_def demo_table_def)
  have vals: "RowAddRequest_reindex_default demo_env = None" "file_ID demo_info = ''file-1''"
    "length demo_chunks = 3"
    by (simp_all add: demo_env_def demo_info_def demo_chunks_def)
  from ingestion_rows [OF ok sum reg load split len refl]
  obtain title title_embed text_embeds where
    "filter inserts_or_indexes (fst ?up)
       = [GenRows demo_table
            (AddBody \<lparr> add_table_id = ''docs'',
                       add_data = row_add_data demo_chunks text_embeds title title_embed ''file-1'',
                       add_stream = False, add_reindex = None \<rparr>),
          CreateIndexes demo_table ''docs'']"
    "last (fst ?up) = CreateIndexes demo_table ''docs''"
    "length (row_add_data demo_chunks text_embeds title title_embed ''file-1'') = 3"
    unfolding table vals by (elim exE conjE)
  with returned len show ?thesis
    by (intro conjI exI) simp_all
qed

end
